theory Spec2Isabelle
  imports Main "HOL-Library.Word"
begin

unbundle bit_operations_syntax

section \<open>The TLS 1.3 application layer (application/ssl/tls1\_3.c)\<close>

text \<open>
  The embedding follows \<^verbatim>\<open>tls1_3.c\<close> function by function. Conventions:

  \<^item> a pointer argument is an \<open>option\<close>: \<open>None\<close> is \<^verbatim>\<open>NULL\<close>, \<open>Some x\<close> points to an
    object whose content is \<open>x\<close>; a byte buffer is a \<open>u8 list\<close> whose length is the size
    of the caller's buffer, and the \<^verbatim>\<open>size_t\<close> length arguments are passed separately, as
    in the C signatures;
  \<^item> a function that mutates the context returns the updated context;
  \<^item> a function that reads or writes a buffer returns an \<open>option\<close>: \<open>None\<close> means
    that the C program reads or writes outside the buffer (undefined behaviour), and
    \<open>Some\<close> carries the value returned and the memory after the call;
  \<^item> the AES block cipher (\<^verbatim>\<open>aes.c\<close>) is not part of the sources; its three entry
    points are parameters, collected in the record \<open>crypto_provider\<close>.
\<close>

subsection \<open>Types\<close>

type_synonym u8 = "8 word"
type_synonym u64 = "64 word"

datatype tls_handshake_state_t =
    TLS_STATE_CLIENT_HELLO
  | TLS_STATE_SERVER_HELLO
  | TLS_STATE_CHANGE_CIPHER_SPEC
  | TLS_STATE_FINISHED
  | TLS_STATE_APPLICATION_DATA
  | TLS_STATE_ERROR

datatype tls_result_t =
    TLS_SUCCESS
  | TLS_ERROR_INVALID_PARAM
  | TLS_ERROR_INVALID_STATE
  | TLS_ERROR_INVALID_MESSAGE
  | TLS_ERROR_INVALID_BLOCK_SIZE
  | TLS_ERROR_MEMORY_ALLOCATION
  | TLS_ERROR_CRYPTO_FAILURE
  | TLS_ERROR_UNSUPPORTED_MESSAGE

datatype aes_key_size_t = AES_KEY_128 | AES_KEY_192 | AES_KEY_256

datatype aes_result_t =
    AES_SUCCESS
  | AES_ERROR_INVALID_PARAM
  | AES_ERROR_INVALID_KEY_SIZE
  | AES_ERROR_INVALID_BLOCK_SIZE
  | AES_ERROR_MEMORY_ALLOCATION

text \<open>
  The hash, RSA and EC context structures are declared in headers that are not part of
  the sources, and \<^verbatim>\<open>tls1_3.c\<close> only allocates, initialises and releases them: their
  content is opaque.
\<close>

datatype sha256_context_t = Sha256_context
datatype rsa_context_t = Rsa_context
datatype ec_context_t = Ec_context

text \<open>\<^verbatim>\<open>tls1_3_context_t\<close>; \<open>'a\<close> is the content of an \<^verbatim>\<open>aes_context_t\<close>.\<close>

record 'a tls1_3_context =
  state :: tls_handshake_state_t
  client_random :: "u8 list"
  server_random :: "u8 list"
  master_secret :: "u8 list"
  client_write_key :: "u8 list"
  server_write_key :: "u8 list"
  client_write_iv :: "u8 list"
  server_write_iv :: "u8 list"
  aes_ctx :: "'a option"
  sha256_ctx :: "sha256_context_t option"
  rsa_ctx :: "rsa_context_t option"
  ec_ctx :: "ec_context_t option"
  sequence_number :: u64
  handshake_hash :: "u8 list"

text \<open>
  The AES entry points of \<^verbatim>\<open>aes.h\<close>. \<open>aes_init\<close> returns its result code and the
  AES context object after the call. A block function returns its result code and the
  16 bytes it produced; following the provider interface of the specification
  (\<^verbatim>\<open>blockEncrypt(key, block)\<close>, \<^verbatim>\<open>blockDecrypt(key, block)\<close>) a block function
  reads the AES context without changing it, and a call that fails produces no block.
\<close>

record 'a crypto_provider =
  aes_init :: "'a option \<Rightarrow> u8 list \<Rightarrow> aes_key_size_t \<Rightarrow> aes_result_t \<times> 'a option"
  aes_encrypt_block :: "'a option \<Rightarrow> u8 list \<Rightarrow> aes_result_t \<times> u8 list"
  aes_decrypt_block :: "'a option \<Rightarrow> u8 list \<Rightarrow> aes_result_t \<times> u8 list"

text \<open>\<^verbatim>\<open>tls_handshake_msg_type_t\<close>, with the values the enumeration gives.\<close>

definition TLS_MSG_CLIENT_HELLO :: u8 where
  "TLS_MSG_CLIENT_HELLO = 1"

definition TLS_MSG_SERVER_HELLO :: u8 where
  "TLS_MSG_SERVER_HELLO = 2"

definition TLS_MSG_CHANGE_CIPHER_SPEC :: u8 where
  "TLS_MSG_CHANGE_CIPHER_SPEC = 20"

definition TLS_MSG_FINISHED :: u8 where
  "TLS_MSG_FINISHED = 20"

subsection \<open>Memory helpers\<close>

text \<open>
  \<^verbatim>\<open>memcpy(dst, src + off, n)\<close> seen from the source buffer: the \<open>n\<close> bytes at offset
  \<open>off\<close>, or \<open>None\<close> when they do not all lie inside the buffer.
\<close>

definition memcpy_from :: "u8 list \<Rightarrow> nat \<Rightarrow> nat \<Rightarrow> u8 list option" where
  "memcpy_from src off n =
     (if off + n \<le> length src then Some (take n (drop off src)) else None)"

text \<open>
  Writing a 16-byte block at offset \<open>off\<close> of an output buffer; \<open>None\<close> when the block
  does not fit.
\<close>

definition store_block :: "u8 list \<Rightarrow> nat \<Rightarrow> u8 list \<Rightarrow> u8 list option" where
  "store_block buf off blk =
     (if off + 16 \<le> length buf
      then Some (take off buf @ take 16 blk @ drop (off + length (take 16 blk)) buf)
      else None)"

text \<open>\<^verbatim>\<open>memset(ctx, 0, sizeof(tls1_3_context_t))\<close>: enumerator 0 is
  \<^verbatim>\<open>TLS_STATE_CLIENT_HELLO\<close>, and an all-zero pointer is \<^verbatim>\<open>NULL\<close>.\<close>

definition memset_context_0 :: "'a tls1_3_context \<Rightarrow> 'a tls1_3_context" where
  "memset_context_0 ctx =
     \<lparr> state = TLS_STATE_CLIENT_HELLO,
       client_random = replicate 32 0,
       server_random = replicate 32 0,
       master_secret = replicate 48 0,
       client_write_key = replicate 32 0,
       server_write_key = replicate 32 0,
       client_write_iv = replicate 12 0,
       server_write_iv = replicate 12 0,
       aes_ctx = None,
       sha256_ctx = None,
       rsa_ctx = None,
       ec_ctx = None,
       sequence_number = 0,
       handshake_hash = replicate 32 0 \<rparr>"

subsection \<open>Key derivation\<close>

text \<open>The two string constants of \<^verbatim>\<open>tls_derive_master_secret\<close>, each with its
  terminating zero byte (\<^verbatim>\<open>sizeof\<close> is 26 and 14).\<close>

definition salt :: "u8 list" where
  "salt = map of_char ''TLS 1.3, server to client'' @ [0]"

definition info :: "u8 list" where
  "info = map of_char ''tls13 derived'' @ [0]"

text \<open>
  \<^verbatim>\<open>tls_derive_master_secret\<close>. The three bytes are promoted to \<^verbatim>\<open>int\<close>, added, masked
  with \<^verbatim>\<open>0xFF\<close> and stored as a byte. The index into the shared secret is
  \<^verbatim>\<open>i % shared_secret_len\<close>: a zero length (division by zero) or an index outside the
  buffer is undefined behaviour.
\<close>

definition tls_derive_master_secret ::
  "'a tls1_3_context \<Rightarrow> u8 list \<Rightarrow> nat \<Rightarrow> (tls_result_t \<times> 'a tls1_3_context) option" where
  "tls_derive_master_secret ctx shared_secret shared_secret_len =
     (if shared_secret_len = 0
         \<or> \<not> list_all (\<lambda>i. i mod shared_secret_len < length shared_secret) [0..<48]
      then None
      else Some (TLS_SUCCESS,
        ctx\<lparr>master_secret :=
          map (\<lambda>i. word_of_int
                 ((uint (salt ! (i mod 26))
                   + uint (shared_secret ! (i mod shared_secret_len))
                   + uint (info ! (i mod 14))) AND 0xFF))
              [0..<48]\<rparr>))"

text \<open>\<^verbatim>\<open>tls_derive_traffic_keys\<close>: three loops, in the order of the source.\<close>

definition tls_derive_traffic_keys ::
  "'a tls1_3_context \<Rightarrow> tls_result_t \<times> 'a tls1_3_context" where
  "tls_derive_traffic_keys ctx =
     (let ms = master_secret ctx;
          ctx1 = ctx\<lparr>client_write_key :=
            map (\<lambda>i. word_of_int ((uint (ms ! (i mod 48)) + int i) AND 0xFF)) [0..<32]\<rparr>;
          ctx2 = ctx1\<lparr>server_write_key :=
            map (\<lambda>i. word_of_int ((uint (ms ! (i mod 48)) + int i + 128) AND 0xFF)) [0..<32]\<rparr>;
          ctx3 = ctx2\<lparr>
            client_write_iv :=
              map (\<lambda>i. word_of_int ((uint (ms ! (i mod 48)) + int i + 64) AND 0xFF)) [0..<12],
            server_write_iv :=
              map (\<lambda>i. word_of_int ((uint (ms ! (i mod 48)) + int i + 192) AND 0xFF)) [0..<12]\<rparr>
      in (TLS_SUCCESS, ctx3))"

subsection \<open>Handshake message handlers\<close>

text \<open>\<^verbatim>\<open>tls_process_client_hello\<close>: the length check is against 4, the copy reads
  bytes 4 to 35 of the buffer.\<close>

definition tls_process_client_hello ::
  "'a tls1_3_context \<Rightarrow> u8 list \<Rightarrow> nat \<Rightarrow> (tls_result_t \<times> 'a tls1_3_context) option" where
  "tls_process_client_hello ctx data data_len =
     (if state ctx \<noteq> TLS_STATE_CLIENT_HELLO then Some (TLS_ERROR_INVALID_STATE, ctx)
      else if data_len < 4 then Some (TLS_ERROR_INVALID_MESSAGE, ctx)
      else case memcpy_from data 4 32 of
             None \<Rightarrow> None
           | Some r \<Rightarrow>
               Some (TLS_SUCCESS, ctx\<lparr>client_random := r, state := TLS_STATE_SERVER_HELLO\<rparr>))"

text \<open>\<^verbatim>\<open>tls_process_server_hello\<close>.\<close>

definition tls_process_server_hello ::
  "'a tls1_3_context \<Rightarrow> u8 list \<Rightarrow> nat \<Rightarrow> (tls_result_t \<times> 'a tls1_3_context) option" where
  "tls_process_server_hello ctx data data_len =
     (if state ctx \<noteq> TLS_STATE_SERVER_HELLO then Some (TLS_ERROR_INVALID_STATE, ctx)
      else if data_len < 4 then Some (TLS_ERROR_INVALID_MESSAGE, ctx)
      else case memcpy_from data 4 32 of
             None \<Rightarrow> None
           | Some r \<Rightarrow>
               Some (TLS_SUCCESS,
                     ctx\<lparr>server_random := r, state := TLS_STATE_CHANGE_CIPHER_SPEC\<rparr>))"

text \<open>
  \<^verbatim>\<open>tls_process_change_cipher_spec\<close>. The flag it tests is \<^verbatim>\<open>data[0]\<close>, the first byte
  of the buffer it is handed. The shared secret is the local array of 32 zero bytes.
\<close>

definition tls_process_change_cipher_spec ::
  "'a crypto_provider \<Rightarrow> 'a tls1_3_context \<Rightarrow> u8 list \<Rightarrow> nat
     \<Rightarrow> (tls_result_t \<times> 'a tls1_3_context) option" where
  "tls_process_change_cipher_spec P ctx data data_len =
     (if state ctx \<noteq> TLS_STATE_CHANGE_CIPHER_SPEC then Some (TLS_ERROR_INVALID_STATE, ctx)
      else if data_len < 1 then Some (TLS_ERROR_INVALID_MESSAGE, ctx)
      else if data = [] then None
      else if data ! 0 \<noteq> 1 then Some (TLS_ERROR_INVALID_MESSAGE, ctx)
      else case tls_derive_master_secret ctx (replicate 32 0) 32 of
             None \<Rightarrow> None
           | Some (result, ctx1) \<Rightarrow>
               if result \<noteq> TLS_SUCCESS then Some (result, ctx1)
               else (case tls_derive_traffic_keys ctx1 of
                 (result2, ctx2) \<Rightarrow>
                   if result2 \<noteq> TLS_SUCCESS then Some (result2, ctx2)
                   else (case aes_init P (aes_ctx ctx2) (client_write_key ctx2) AES_KEY_256 of
                     (r, a) \<Rightarrow>
                       if r \<noteq> AES_SUCCESS
                       then Some (TLS_ERROR_CRYPTO_FAILURE, ctx2\<lparr>aes_ctx := a\<rparr>)
                       else Some (TLS_SUCCESS,
                                  ctx2\<lparr>aes_ctx := a, state := TLS_STATE_FINISHED\<rparr>))))"

text \<open>\<^verbatim>\<open>tls_process_finished\<close>: only the length is checked.\<close>

definition tls_process_finished ::
  "'a tls1_3_context \<Rightarrow> u8 list \<Rightarrow> nat \<Rightarrow> (tls_result_t \<times> 'a tls1_3_context) option" where
  "tls_process_finished ctx data data_len =
     (if state ctx \<noteq> TLS_STATE_FINISHED then Some (TLS_ERROR_INVALID_STATE, ctx)
      else if data_len < 32 then Some (TLS_ERROR_INVALID_MESSAGE, ctx)
      else Some (TLS_SUCCESS, ctx\<lparr>state := TLS_STATE_APPLICATION_DATA\<rparr>))"

subsection \<open>Public interface\<close>

text \<open>
  \<^verbatim>\<open>tls1_3_cleanup\<close>. Each non-null handle is cleaned, freed and set to \<^verbatim>\<open>NULL\<close>, then
  the whole structure is zeroed. The releases are returned as a list of events, so that
  a second release of the same handle would be visible.
\<close>

datatype release = Free_aes_ctx | Free_sha256_ctx | Free_rsa_ctx | Free_ec_ctx

definition tls1_3_cleanup ::
  "'a tls1_3_context option \<Rightarrow> release list \<times> 'a tls1_3_context option" where
  "tls1_3_cleanup ctxp =
     (case ctxp of
        None \<Rightarrow> ([], None)
      | Some ctx \<Rightarrow>
          ((if aes_ctx ctx \<noteq> None then [Free_aes_ctx] else [])
           @ (if sha256_ctx ctx \<noteq> None then [Free_sha256_ctx] else [])
           @ (if rsa_ctx ctx \<noteq> None then [Free_rsa_ctx] else [])
           @ (if ec_ctx ctx \<noteq> None then [Free_ec_ctx] else []),
           Some (memset_context_0 ctx)))"

text \<open>
  \<^verbatim>\<open>tls1_3_init\<close>. The four results of \<^verbatim>\<open>malloc\<close> are parameters (\<open>None\<close> when the
  allocation fails). The content the structure had before the call is overwritten.
\<close>

definition tls1_3_init ::
  "'a option \<Rightarrow> sha256_context_t option \<Rightarrow> rsa_context_t option \<Rightarrow> ec_context_t option
     \<Rightarrow> 'a tls1_3_context option
     \<Rightarrow> tls_result_t \<times> release list \<times> 'a tls1_3_context option" where
  "tls1_3_init m_aes m_sha256 m_rsa m_ec ctxp =
     (case ctxp of
        None \<Rightarrow> (TLS_ERROR_INVALID_PARAM, [], None)
      | Some ctx0 \<Rightarrow>
          (let ctx = (memset_context_0 ctx0)\<lparr>state := TLS_STATE_CLIENT_HELLO,
                       aes_ctx := m_aes, sha256_ctx := m_sha256,
                       rsa_ctx := m_rsa, ec_ctx := m_ec\<rparr>
           in if aes_ctx ctx = None \<or> sha256_ctx ctx = None
                 \<or> rsa_ctx ctx = None \<or> ec_ctx ctx = None
              then (case tls1_3_cleanup (Some ctx) of
                      (rel, ctxp') \<Rightarrow> (TLS_ERROR_MEMORY_ALLOCATION, rel, ctxp'))
              else (TLS_SUCCESS, [], Some ctx)))"

text \<open>
  \<^verbatim>\<open>tls1_3_process_handshake\<close>. The \<^verbatim>\<open>switch\<close> lists the labels in the order
  \<^verbatim>\<open>TLS_MSG_CLIENT_HELLO\<close>, \<^verbatim>\<open>TLS_MSG_SERVER_HELLO\<close>, \<^verbatim>\<open>TLS_MSG_CHANGE_CIPHER_SPEC\<close>,
  \<^verbatim>\<open>TLS_MSG_FINISHED\<close>; the chain of tests keeps that order. The last two labels have
  the same value, so the model gives a message of that type to the first of the two
  handlers (a C compiler rejects the duplicate label).
\<close>

definition tls1_3_process_handshake ::
  "'a crypto_provider \<Rightarrow> 'a tls1_3_context option \<Rightarrow> u8 list option \<Rightarrow> nat
     \<Rightarrow> (tls_result_t \<times> 'a tls1_3_context option) option" where
  "tls1_3_process_handshake P ctxp datap data_len =
     (case (ctxp, datap) of
        (Some ctx, Some data) \<Rightarrow>
          if data_len < 4 then Some (TLS_ERROR_INVALID_MESSAGE, ctxp)
          else if data = [] then None
          else
            (let msg_type = data ! 0 in
             map_option (\<lambda>(r, c). (r, Some c))
               (if msg_type = TLS_MSG_CLIENT_HELLO
                  then tls_process_client_hello ctx data data_len
                else if msg_type = TLS_MSG_SERVER_HELLO
                  then tls_process_server_hello ctx data data_len
                else if msg_type = TLS_MSG_CHANGE_CIPHER_SPEC
                  then tls_process_change_cipher_spec P ctx data data_len
                else if msg_type = TLS_MSG_FINISHED
                  then tls_process_finished ctx data data_len
                else Some (TLS_ERROR_UNSUPPORTED_MESSAGE, ctx)))
      | _ \<Rightarrow> Some (TLS_ERROR_INVALID_PARAM, ctxp))"

text \<open>
  The block loop of \<^verbatim>\<open>tls1_3_encrypt_data\<close> and \<^verbatim>\<open>tls1_3_decrypt_data\<close> (the two
  loops differ only in the block function \<open>f\<close>): \<open>i\<close> is the loop counter, \<open>k\<close> the
  number of blocks still to process. A block whose transform fails ends the call with
  \<^verbatim>\<open>TLS_ERROR_CRYPTO_FAILURE\<close>; the blocks written before it stay in the output buffer.
\<close>

fun block_loop ::
  "('a option \<Rightarrow> u8 list \<Rightarrow> aes_result_t \<times> u8 list) \<Rightarrow> 'a option \<Rightarrow> u8 list \<Rightarrow> nat \<Rightarrow> nat
     \<Rightarrow> u8 list \<Rightarrow> (tls_result_t \<times> u8 list) option" where
  "block_loop f a inp i 0 out = Some (TLS_SUCCESS, out)"
| "block_loop f a inp i (Suc k) out =
     (case memcpy_from inp (i * 16) 16 of
        None \<Rightarrow> None
      | Some blk \<Rightarrow>
          (case f a blk of
             (result, blk') \<Rightarrow>
               if result \<noteq> AES_SUCCESS then Some (TLS_ERROR_CRYPTO_FAILURE, out)
               else (case store_block out (i * 16) blk' of
                       None \<Rightarrow> None
                     | Some out' \<Rightarrow> block_loop f a inp (Suc i) k out')))"

text \<open>
  \<^verbatim>\<open>tls1_3_encrypt_data\<close>. The result carries the return code, the context, the output
  buffer and the cell \<^verbatim>\<open>*ciphertext_len\<close> after the call.
\<close>

definition tls1_3_encrypt_data ::
  "'a crypto_provider \<Rightarrow> 'a tls1_3_context option \<Rightarrow> u8 list option \<Rightarrow> nat
     \<Rightarrow> u8 list option \<Rightarrow> nat option
     \<Rightarrow> (tls_result_t \<times> 'a tls1_3_context option \<times> u8 list option \<times> nat option) option" where
  "tls1_3_encrypt_data P ctxp plaintext plaintext_len ciphertext ciphertext_len =
     (case (ctxp, plaintext, ciphertext, ciphertext_len) of
        (Some ctx, Some pt, Some ct, Some _) \<Rightarrow>
          if state ctx \<noteq> TLS_STATE_APPLICATION_DATA
            then Some (TLS_ERROR_INVALID_STATE, ctxp, ciphertext, ciphertext_len)
          else if plaintext_len mod 16 \<noteq> 0
            then Some (TLS_ERROR_INVALID_BLOCK_SIZE, ctxp, ciphertext, ciphertext_len)
          else
            (case block_loop (aes_encrypt_block P) (aes_ctx ctx) pt 0 (plaintext_len div 16) ct of
               None \<Rightarrow> None
             | Some (result, ct') \<Rightarrow>
                 if result \<noteq> TLS_SUCCESS then Some (result, ctxp, Some ct', ciphertext_len)
                 else Some (TLS_SUCCESS,
                            Some (ctx\<lparr>sequence_number := sequence_number ctx + 1\<rparr>),
                            Some ct', Some plaintext_len))
      | _ \<Rightarrow> Some (TLS_ERROR_INVALID_PARAM, ctxp, ciphertext, ciphertext_len))"

text \<open>\<^verbatim>\<open>tls1_3_decrypt_data\<close>, the same with the roles of the buffers exchanged.\<close>

definition tls1_3_decrypt_data ::
  "'a crypto_provider \<Rightarrow> 'a tls1_3_context option \<Rightarrow> u8 list option \<Rightarrow> nat
     \<Rightarrow> u8 list option \<Rightarrow> nat option
     \<Rightarrow> (tls_result_t \<times> 'a tls1_3_context option \<times> u8 list option \<times> nat option) option" where
  "tls1_3_decrypt_data P ctxp ciphertext ciphertext_len plaintext plaintext_len =
     (case (ctxp, ciphertext, plaintext, plaintext_len) of
        (Some ctx, Some ct, Some pt, Some _) \<Rightarrow>
          if state ctx \<noteq> TLS_STATE_APPLICATION_DATA
            then Some (TLS_ERROR_INVALID_STATE, ctxp, plaintext, plaintext_len)
          else if ciphertext_len mod 16 \<noteq> 0
            then Some (TLS_ERROR_INVALID_BLOCK_SIZE, ctxp, plaintext, plaintext_len)
          else
            (case block_loop (aes_decrypt_block P) (aes_ctx ctx) ct 0 (ciphertext_len div 16) pt of
               None \<Rightarrow> None
             | Some (result, pt') \<Rightarrow>
                 if result \<noteq> TLS_SUCCESS then Some (result, ctxp, Some pt', plaintext_len)
                 else Some (TLS_SUCCESS,
                            Some (ctx\<lparr>sequence_number := sequence_number ctx + 1\<rparr>),
                            Some pt', Some ciphertext_len))
      | _ \<Rightarrow> Some (TLS_ERROR_INVALID_PARAM, ctxp, plaintext, plaintext_len))"

text \<open>\<^verbatim>\<open>tls1_3_get_state\<close>.\<close>

definition tls1_3_get_state :: "'a tls1_3_context option \<Rightarrow> tls_handshake_state_t" where
  "tls1_3_get_state ctxp = (case ctxp of None \<Rightarrow> TLS_STATE_ERROR | Some ctx \<Rightarrow> state ctx)"

subsection \<open>The state machine as a whole\<close>

text \<open>
  The message type each state accepts (the type whose handler tests for that state),
  with the codes of \<^verbatim>\<open>tls_handshake_msg_type_t\<close>; no handler accepts anything in
  \<^verbatim>\<open>TLS_STATE_APPLICATION_DATA\<close> or \<^verbatim>\<open>TLS_STATE_ERROR\<close>.
\<close>

definition accepted_msg_type :: "tls_handshake_state_t \<Rightarrow> u8 option" where
  "accepted_msg_type s =
     (case s of
        TLS_STATE_CLIENT_HELLO \<Rightarrow> Some TLS_MSG_CLIENT_HELLO
      | TLS_STATE_SERVER_HELLO \<Rightarrow> Some TLS_MSG_SERVER_HELLO
      | TLS_STATE_CHANGE_CIPHER_SPEC \<Rightarrow> Some TLS_MSG_CHANGE_CIPHER_SPEC
      | TLS_STATE_FINISHED \<Rightarrow> Some TLS_MSG_FINISHED
      | TLS_STATE_APPLICATION_DATA \<Rightarrow> None
      | TLS_STATE_ERROR \<Rightarrow> None)"

text \<open>
  One call of an operation that works on a live context: \<open>step P c c'\<close> holds when
  some call of \<^verbatim>\<open>tls1_3_process_handshake\<close>, \<^verbatim>\<open>tls1_3_encrypt_data\<close> or
  \<^verbatim>\<open>tls1_3_decrypt_data\<close> on the context \<open>c\<close> returns and leaves the context \<open>c'\<close>.
\<close>

inductive step :: "'a crypto_provider \<Rightarrow> 'a tls1_3_context \<Rightarrow> 'a tls1_3_context \<Rightarrow> bool"
  for P :: "'a crypto_provider" where
    handshake: "tls1_3_process_handshake P (Some c) datap n = Some (r, Some c') \<Longrightarrow> step P c c'"
  | encrypt: "tls1_3_encrypt_data P (Some c) pt n ct cl = Some (r, Some c', ct', cl')
                \<Longrightarrow> step P c c'"
  | decrypt: "tls1_3_decrypt_data P (Some c) ct n pt pl = Some (r, Some c', pt', pl')
                \<Longrightarrow> step P c c'"

text \<open>The contexts a program can hold: what \<^verbatim>\<open>tls1_3_init\<close> leaves, and what any
  number of calls make of it.\<close>

inductive reachable :: "'a crypto_provider \<Rightarrow> 'a tls1_3_context \<Rightarrow> bool"
  for P :: "'a crypto_provider" where
    init: "tls1_3_init ma ms mr me (Some c0) = (r, rel, Some c) \<Longrightarrow> reachable P c"
  | step: "reachable P c \<Longrightarrow> step P c c' \<Longrightarrow> reachable P c'"

subsection \<open>Example data\<close>

text \<open>
  A stand-in for the AES provider, used in the concrete instances below: its AES
  context stores the key, and its block transform (in both directions) reverses the
  16 bytes of the block. A null context is rejected.
\<close>

definition rev_provider :: "u8 list crypto_provider" where
  "rev_provider =
     \<lparr> aes_init = (\<lambda>a key sz. case a of None \<Rightarrow> (AES_ERROR_INVALID_PARAM, None)
                                | Some _ \<Rightarrow> (AES_SUCCESS, Some key)),
       aes_encrypt_block = (\<lambda>a blk. case a of None \<Rightarrow> (AES_ERROR_INVALID_PARAM, [])
                                | Some _ \<Rightarrow> (AES_SUCCESS, rev blk)),
       aes_decrypt_block = (\<lambda>a blk. case a of None \<Rightarrow> (AES_ERROR_INVALID_PARAM, [])
                                | Some _ \<Rightarrow> (AES_SUCCESS, rev blk)) \<rparr>"

text \<open>A provider whose every entry point reports an error.\<close>

definition failing_provider :: "u8 list crypto_provider" where
  "failing_provider =
     \<lparr> aes_init = (\<lambda>a key sz. (AES_ERROR_INVALID_KEY_SIZE, a)),
       aes_encrypt_block = (\<lambda>a blk. (AES_ERROR_INVALID_PARAM, [])),
       aes_decrypt_block = (\<lambda>a blk. (AES_ERROR_INVALID_PARAM, [])) \<rparr>"

text \<open>A context as \<^verbatim>\<open>tls1_3_init\<close> leaves it when the four allocations succeed.\<close>

definition fresh_context :: "u8 list tls1_3_context" where
  "fresh_context =
     \<lparr> state = TLS_STATE_CLIENT_HELLO,
       client_random = replicate 32 0,
       server_random = replicate 32 0,
       master_secret = replicate 48 0,
       client_write_key = replicate 32 0,
       server_write_key = replicate 32 0,
       client_write_iv = replicate 12 0,
       server_write_iv = replicate 12 0,
       aes_ctx = Some [],
       sha256_ctx = Some Sha256_context,
       rsa_ctx = Some Rsa_context,
       ec_ctx = Some Ec_context,
       sequence_number = 0,
       handshake_hash = replicate 32 0 \<rparr>"

section \<open>Properties\<close>

subsection \<open>Buffers and the block loop\<close>

lemma memcpy_from_Some:
  "off + n \<le> length src \<Longrightarrow> memcpy_from src off n = Some (take n (drop off src))"
  by (simp add: memcpy_from_def)

lemma store_block_length:
  "store_block buf off blk = Some buf' \<Longrightarrow> length buf' = length buf"
  by (auto simp: store_block_def split: if_splits)

lemma store_block_drop:
  "store_block buf off blk = Some buf' \<Longrightarrow> off + 16 \<le> m \<Longrightarrow> drop m buf' = drop m buf"
  by (auto simp: store_block_def min_def split: if_splits)

lemma store_block_full:
  "off + 16 \<le> length buf \<Longrightarrow> length blk = 16 \<Longrightarrow>
   store_block buf off blk = Some (take off buf @ blk @ drop (off + 16) buf)"
  by (simp add: store_block_def)

lemma block_loop_Suc_cases:
  assumes "block_loop f a inp i (Suc k) out = Some (r, out')"
  shows "i * 16 + 16 \<le> length inp \<and>
         ((fst (f a (take 16 (drop (i * 16) inp))) \<noteq> AES_SUCCESS
             \<and> r = TLS_ERROR_CRYPTO_FAILURE \<and> out' = out)
          \<or> (fst (f a (take 16 (drop (i * 16) inp))) = AES_SUCCESS
             \<and> (\<exists>out1. store_block out (i * 16) (snd (f a (take 16 (drop (i * 16) inp)))) = Some out1
                   \<and> block_loop f a inp (Suc i) k out1 = Some (r, out'))))"
  using assms
  by (auto simp: memcpy_from_def split: option.splits prod.splits if_splits)

lemma block_loop_length:
  "block_loop f a inp i k out = Some (r, out') \<Longrightarrow> length out' = length out"
proof (induction k arbitrary: i out)
  case 0
  then show ?case by simp
next
  case (Suc k)
  from block_loop_Suc_cases [OF Suc.prems] Suc.IH show ?case
    by (auto dest: store_block_length)
qed

lemma block_loop_result:
  "block_loop f a inp i k out = Some (r, out') \<Longrightarrow>
     r = TLS_SUCCESS \<or> r = TLS_ERROR_CRYPTO_FAILURE"
proof (induction k arbitrary: i out)
  case 0
  then show ?case by simp
next
  case (Suc k)
  from block_loop_Suc_cases [OF Suc.prems] Suc.IH show ?case by auto
qed

lemma block_loop_drop:
  "block_loop f a inp i k out = Some (r, out') \<Longrightarrow>
     drop ((i + k) * 16) out' = drop ((i + k) * 16) out"
proof (induction k arbitrary: i out)
  case 0
  then show ?case by simp
next
  case (Suc k)
  from block_loop_Suc_cases [OF Suc.prems] show ?case
  proof (elim conjE disjE exE)
    fix out1
    assume st: "store_block out (i * 16) (snd (f a (take 16 (drop (i * 16) inp)))) = Some out1"
      and rec: "block_loop f a inp (Suc i) k out1 = Some (r, out')"
    from Suc.IH [OF rec] have "drop ((Suc i + k) * 16) out' = drop ((Suc i + k) * 16) out1" .
    also from st have "\<dots> = drop ((Suc i + k) * 16) out"
      by (rule store_block_drop) simp
    finally show ?thesis by simp
  qed simp
qed

text \<open>The output buffer after a run in which every block call succeeds.\<close>

lemma block_loop_success:
  assumes "\<And>j. i \<le> j \<Longrightarrow> j < i + k \<Longrightarrow>
             f a (take 16 (drop (j * 16) inp)) = (AES_SUCCESS, g j) \<and> length (g j) = 16"
    and "(i + k) * 16 \<le> length inp" and "(i + k) * 16 \<le> length out"
  shows "block_loop f a inp i k out =
           Some (TLS_SUCCESS,
                 take (i * 16) out @ concat (map g [i..<i + k]) @ drop ((i + k) * 16) out)"
  using assms
proof (induction k arbitrary: i out)
  case 0
  then show ?case by simp
next
  case (Suc k)
  let ?out1 = "take (i * 16) out @ g i @ drop (i * 16 + 16) out"
  from Suc.prems(1) [of i] have fi: "f a (take 16 (drop (i * 16) inp)) = (AES_SUCCESS, g i)"
    and gi: "length (g i) = 16" by auto
  from Suc.prems(2) have rd: "memcpy_from inp (i * 16) 16 = Some (take 16 (drop (i * 16) inp))"
    by (intro memcpy_from_Some) simp
  from Suc.prems(3) gi have st: "store_block out (i * 16) (g i) = Some ?out1"
    by (intro store_block_full) simp_all
  have len1: "length ?out1 = length out"
    using store_block_length [OF st] .
  have "block_loop f a inp (Suc i) k ?out1 =
          Some (TLS_SUCCESS, take (Suc i * 16) ?out1 @ concat (map g [Suc i..<Suc i + k])
                  @ drop ((Suc i + k) * 16) ?out1)"
  proof (rule Suc.IH)
    fix j assume "Suc i \<le> j" "j < Suc i + k"
    then show "f a (take 16 (drop (j * 16) inp)) = (AES_SUCCESS, g j) \<and> length (g j) = 16"
      using Suc.prems(1) [of j] by simp
  next
    from Suc.prems(2) show "(Suc i + k) * 16 \<le> length inp" by simp
  next
    from Suc.prems(3) len1 show "(Suc i + k) * 16 \<le> length ?out1" by simp
  qed
  moreover have "take (Suc i * 16) ?out1 = take (i * 16) out @ g i"
    using Suc.prems(3) gi by simp
  moreover have "drop ((Suc i + k) * 16) ?out1 = drop ((i + Suc k) * 16) out"
    using store_block_drop [OF st, of "(Suc i + k) * 16"] by simp
  moreover have "[i..<i + Suc k] = i # [Suc i..<Suc i + k]"
    by (simp add: upt_conv_Cons)
  ultimately show ?case
    using rd fi st by simp
qed

text \<open>With buffers that hold all the blocks the loop always returns, and it succeeds
  exactly when every block call does.\<close>

lemma block_loop_total:
  assumes "(i + k) * 16 \<le> length inp" and "(i + k) * 16 \<le> length out"
  shows "\<exists>r out'. block_loop f a inp i k out = Some (r, out')
           \<and> (r = TLS_SUCCESS
                \<longleftrightarrow> (\<forall>j. i \<le> j \<and> j < i + k \<longrightarrow>
                       fst (f a (take 16 (drop (j * 16) inp))) = AES_SUCCESS))"
  using assms
proof (induction k arbitrary: i out)
  case 0
  then show ?case by auto
next
  case (Suc k)
  let ?blk = "take 16 (drop (i * 16) inp)"
  from Suc.prems(1) have rd: "memcpy_from inp (i * 16) 16 = Some ?blk"
    by (intro memcpy_from_Some) simp
  show ?case
  proof (cases "fst (f a ?blk) = AES_SUCCESS")
    case False
    then have "block_loop f a inp i (Suc k) out = Some (TLS_ERROR_CRYPTO_FAILURE, out)"
      using rd by (cases "f a ?blk") simp
    moreover from False have
      "\<not> (\<forall>j. i \<le> j \<and> j < i + Suc k \<longrightarrow> fst (f a (take 16 (drop (j * 16) inp))) = AES_SUCCESS)"
      by (intro notI) (drule spec [of _ i], simp)
    ultimately show ?thesis by simp
  next
    case True
    from Suc.prems(2) obtain out1 where
      st: "store_block out (i * 16) (snd (f a ?blk)) = Some out1"
      by (auto simp: store_block_def)
    have "\<exists>r out'. block_loop f a inp (Suc i) k out1 = Some (r, out')
           \<and> (r = TLS_SUCCESS
                \<longleftrightarrow> (\<forall>j. Suc i \<le> j \<and> j < Suc i + k \<longrightarrow>
                       fst (f a (take 16 (drop (j * 16) inp))) = AES_SUCCESS))"
      using Suc.prems store_block_length [OF st] by (intro Suc.IH) simp_all
    then obtain r out' where
      rec: "block_loop f a inp (Suc i) k out1 = Some (r, out')"
      and iff: "r = TLS_SUCCESS
                \<longleftrightarrow> (\<forall>j. Suc i \<le> j \<and> j < Suc i + k \<longrightarrow>
                       fst (f a (take 16 (drop (j * 16) inp))) = AES_SUCCESS)"
      by blast
    have step: "block_loop f a inp i (Suc k) out = Some (r, out')"
      using rd True st rec by (cases "f a ?blk") simp
    have "(\<forall>j. i \<le> j \<and> j < i + Suc k \<longrightarrow> fst (f a (take 16 (drop (j * 16) inp))) = AES_SUCCESS)
          \<longleftrightarrow> (\<forall>j. Suc i \<le> j \<and> j < Suc i + k \<longrightarrow>
                       fst (f a (take 16 (drop (j * 16) inp))) = AES_SUCCESS)"
    proof (intro iffI allI impI)
      fix j
      assume all: "\<forall>j. Suc i \<le> j \<and> j < Suc i + k \<longrightarrow>
                       fst (f a (take 16 (drop (j * 16) inp))) = AES_SUCCESS"
        and j: "i \<le> j \<and> j < i + Suc k"
      show "fst (f a (take 16 (drop (j * 16) inp))) = AES_SUCCESS"
      proof (cases "j = i")
        case True
        with \<open>fst (f a ?blk) = AES_SUCCESS\<close> show ?thesis by simp
      next
        case False
        with j all show ?thesis by simp
      qed
    qed simp
    with step iff show ?thesis by simp
  qed
qed

text \<open>Cutting a buffer into 16-byte blocks and gluing them together again.\<close>

lemma concat_blocks:
  "(i + k) * 16 \<le> length xs \<Longrightarrow>
   concat (map (\<lambda>j. take 16 (drop (j * 16) xs)) [i..<i + k]) = take (k * 16) (drop (i * 16) xs)"
proof (induction k)
  case 0
  then show ?case by simp
next
  case (Suc k)
  then have "concat (map (\<lambda>j. take 16 (drop (j * 16) xs)) [i..<i + k])
               = take (k * 16) (drop (i * 16) xs)" by simp
  moreover have "take (k * 16 + 16) (drop (i * 16) xs)
      = take (k * 16) (drop (i * 16) xs) @ take 16 (drop (k * 16) (drop (i * 16) xs))"
    by (rule take_add)
  moreover have "drop (k * 16) (drop (i * 16) xs) = drop ((i + k) * 16) xs"
    by (simp add: algebra_simps)
  moreover have "Suc k * 16 = k * 16 + 16" by simp
  ultimately show ?case by (simp del: mult_Suc)
qed

text \<open>The length of a sequence of 16-byte blocks, and the \<open>j\<close>-th block of it.\<close>

lemma length_concat_blocks:
  "(\<And>j. j \<in> set js \<Longrightarrow> length (g j) = 16) \<Longrightarrow> length (concat (map g js)) = length js * 16"
  by (induction js) simp_all

lemma block_of_concat:
  assumes "\<And>j. j < k \<Longrightarrow> length (g j) = 16" and "j < k"
  shows "take 16 (drop (j * 16) (concat (map g [0..<k]) @ rest)) = g j"
  using assms
proof (induction k arbitrary: rest)
  case 0
  then show ?case by simp
next
  case (Suc k)
  let ?A = "concat (map g [0..<k])"
  have lenA: "length ?A = k * 16"
    using Suc.prems(1) length_concat_blocks [of "[0..<k]" g] by simp
  have split: "concat (map g [0..<Suc k]) @ rest = ?A @ (g k @ rest)" by simp
  show ?case
  proof (cases "j = k")
    case True
    with lenA Suc.prems(1) [of k] show ?thesis
      unfolding split by simp
  next
    case False
    with Suc.prems(2) have "j < k" by simp
    with Suc.IH [of "g k @ rest"] Suc.prems(1) show ?thesis
      unfolding split by simp
  qed
qed

subsection \<open>What one call can do to a context\<close>

lemmas msg_defs = TLS_MSG_CLIENT_HELLO_def TLS_MSG_SERVER_HELLO_def
  TLS_MSG_CHANGE_CIPHER_SPEC_def TLS_MSG_FINISHED_def

text \<open>
  A message that the dispatcher hands to \<^verbatim>\<open>tls_process_change_cipher_spec\<close> has first
  byte 20, and the handler requires that same byte to be 1: it never gets further than
  its two checks.
\<close>

lemma ccs_via_dispatch:
  "data \<noteq> [] \<Longrightarrow> data ! 0 = TLS_MSG_CHANGE_CIPHER_SPEC \<Longrightarrow>
   tls_process_change_cipher_spec P ctx data data_len =
     Some (if state ctx \<noteq> TLS_STATE_CHANGE_CIPHER_SPEC then TLS_ERROR_INVALID_STATE
           else TLS_ERROR_INVALID_MESSAGE, ctx)"
  by (simp add: tls_process_change_cipher_spec_def TLS_MSG_CHANGE_CIPHER_SPEC_def)

lemma process_handshake_cases:
  assumes "tls1_3_process_handshake P (Some c) datap n = Some (r, cp')"
  shows "(cp' = Some c \<and> r \<noteq> TLS_SUCCESS)
       \<or> (\<exists>rnd. state c = TLS_STATE_CLIENT_HELLO \<and> r = TLS_SUCCESS
             \<and> cp' = Some (c\<lparr>client_random := rnd, state := TLS_STATE_SERVER_HELLO\<rparr>))
       \<or> (\<exists>rnd. state c = TLS_STATE_SERVER_HELLO \<and> r = TLS_SUCCESS
             \<and> cp' = Some (c\<lparr>server_random := rnd, state := TLS_STATE_CHANGE_CIPHER_SPEC\<rparr>))"
proof (cases datap)
  case None
  with assms show ?thesis by (simp add: tls1_3_process_handshake_def)
next
  case (Some data)
  show ?thesis
  proof (cases "n < 4 \<or> data = []")
    case True
    with assms Some show ?thesis
      by (auto simp: tls1_3_process_handshake_def split: if_splits)
  next
    case False
    then have ne: "data \<noteq> []" and n4: "\<not> n < 4" by auto
    consider (ch) "data ! 0 = TLS_MSG_CLIENT_HELLO"
      | (sh) "data ! 0 = TLS_MSG_SERVER_HELLO"
      | (ccs) "data ! 0 = TLS_MSG_CHANGE_CIPHER_SPEC"
      | (other) "data ! 0 \<noteq> TLS_MSG_CLIENT_HELLO" "data ! 0 \<noteq> TLS_MSG_SERVER_HELLO"
                "data ! 0 \<noteq> TLS_MSG_CHANGE_CIPHER_SPEC"
      by blast
    then show ?thesis
    proof cases
      case ch
      with assms Some ne n4 show ?thesis
        by (auto simp: tls1_3_process_handshake_def tls_process_client_hello_def
                 split: if_splits option.splits)
    next
      case sh
      with assms Some ne n4 show ?thesis
        by (auto simp: tls1_3_process_handshake_def tls_process_server_hello_def msg_defs
                 split: if_splits option.splits)
    next
      case ccs
      with assms Some ne n4 show ?thesis
        by (auto simp: tls1_3_process_handshake_def ccs_via_dispatch msg_defs
                 split: if_splits)
    next
      case other
      with assms Some ne n4 show ?thesis
        by (auto simp: tls1_3_process_handshake_def msg_defs)
    qed
  qed
qed


text \<open>
  A buffer of at least 4 bytes whose first byte is one of the handshake type codes and
  differs from the code accepted in the current state is answered with
  \<^verbatim>\<open>TLS_ERROR_INVALID_STATE\<close>, the context unchanged. The comparison is between
  codes: CHANGE\_CIPHER\_SPEC and FINISHED have the same code, so this says nothing about
  a FINISHED message in \<^verbatim>\<open>TLS_STATE_CHANGE_CIPHER_SPEC\<close> or a CHANGE\_CIPHER\_SPEC
  message in \<^verbatim>\<open>TLS_STATE_FINISHED\<close>.
\<close>

lemma mismatch_by_code_invalid_state:
  assumes "4 \<le> data_len" and "data_len \<le> length data"
    and "data ! 0 \<in> {TLS_MSG_CLIENT_HELLO, TLS_MSG_SERVER_HELLO,
                      TLS_MSG_CHANGE_CIPHER_SPEC, TLS_MSG_FINISHED}"
    and "accepted_msg_type (state ctx) \<noteq> Some (data ! 0)"
  shows "\<exists>ctxp'. tls1_3_process_handshake P (Some ctx) (Some data) data_len
                     = Some (TLS_ERROR_INVALID_STATE, ctxp')
                 \<and> ctxp' = Some ctx
                 \<and> tls1_3_get_state ctxp' = tls1_3_get_state (Some ctx)"
proof -
  from assms(1,2) have ne: "data \<noteq> []" by auto
  from assms(3) consider (ch) "data ! 0 = TLS_MSG_CLIENT_HELLO"
    | (sh) "data ! 0 = TLS_MSG_SERVER_HELLO"
    | (ccs) "data ! 0 = TLS_MSG_CHANGE_CIPHER_SPEC"
    by (auto simp: msg_defs)
  then have "tls1_3_process_handshake P (Some ctx) (Some data) data_len
               = Some (TLS_ERROR_INVALID_STATE, Some ctx)"
  proof cases
    case ch
    with assms(4) have "state ctx \<noteq> TLS_STATE_CLIENT_HELLO"
      by (auto simp: accepted_msg_type_def)
    with ch ne assms(1) show ?thesis
      by (simp add: tls1_3_process_handshake_def tls_process_client_hello_def)
  next
    case sh
    with assms(4) have "state ctx \<noteq> TLS_STATE_SERVER_HELLO"
      by (auto simp: accepted_msg_type_def)
    with sh ne assms(1) show ?thesis
      by (simp add: tls1_3_process_handshake_def tls_process_server_hello_def msg_defs)
  next
    case ccs
    with assms(4) have "state ctx \<noteq> TLS_STATE_CHANGE_CIPHER_SPEC"
      by (auto simp: accepted_msg_type_def)
    with ccs ne assms(1) show ?thesis
      by (simp add: tls1_3_process_handshake_def ccs_via_dispatch msg_defs)
  qed
  then show ?thesis by simp
qed

text \<open>
  What \<^verbatim>\<open>tls_process_change_cipher_spec\<close> does when \<^verbatim>\<open>aes_init\<close> reports an error:
  it returns \<^verbatim>\<open>TLS_ERROR_CRYPTO_FAILURE\<close> and leaves the state and the freshly derived
  secrets as they are. This needs a buffer whose first byte is 1, which
  \<^verbatim>\<open>tls1_3_process_handshake\<close> never hands to this handler.
\<close>

lemma ccs_handler_arming_failure:
  assumes "state ctx = TLS_STATE_CHANGE_CIPHER_SPEC"
    and "1 \<le> data_len" and "data_len \<le> length data" and "data ! 0 = 1"
    and "tls_derive_master_secret ctx (replicate 32 0) 32 = Some (TLS_SUCCESS, ctx1)"
    and "tls_derive_traffic_keys ctx1 = (TLS_SUCCESS, ctx2)"
    and "aes_init P (aes_ctx ctx2) (client_write_key ctx2) AES_KEY_256 = (r, a)"
    and "r \<noteq> AES_SUCCESS"
  shows "tls_process_change_cipher_spec P ctx data data_len
           = Some (TLS_ERROR_CRYPTO_FAILURE, ctx2\<lparr>aes_ctx := a\<rparr>)
         \<and> state (ctx2\<lparr>aes_ctx := a\<rparr>) = TLS_STATE_CHANGE_CIPHER_SPEC
         \<and> master_secret (ctx2\<lparr>aes_ctx := a\<rparr>) = master_secret ctx1"
proof -
  from assms(2,3) have ne: "data \<noteq> []" by auto
  from assms(5) have s1: "state ctx1 = state ctx"
    by (auto simp: tls_derive_master_secret_def split: if_splits)
  from assms(6) have s2: "state ctx2 = state ctx1" and m2: "master_secret ctx2 = master_secret ctx1"
    by (auto simp: tls_derive_traffic_keys_def Let_def)
  from assms ne have "tls_process_change_cipher_spec P ctx data data_len
           = Some (TLS_ERROR_CRYPTO_FAILURE, ctx2\<lparr>aes_ctx := a\<rparr>)"
    by (simp add: tls_process_change_cipher_spec_def)
  with s1 s2 m2 assms(1) show ?thesis by auto
qed

lemma encrypt_cases:
  assumes "tls1_3_encrypt_data P (Some c) pt n ct cl = Some (r, cp', ct', cl')"
  shows "(r \<noteq> TLS_SUCCESS \<and> cp' = Some c \<and> cl' = cl)
       \<or> (r = TLS_SUCCESS \<and> state c = TLS_STATE_APPLICATION_DATA \<and> n mod 16 = 0
            \<and> cp' = Some (c\<lparr>sequence_number := sequence_number c + 1\<rparr>) \<and> cl' = Some n)"
  using assms
  by (auto simp: tls1_3_encrypt_data_def split: option.splits if_splits)

lemma decrypt_cases:
  assumes "tls1_3_decrypt_data P (Some c) ct n pt pl = Some (r, cp', pt', pl')"
  shows "(r \<noteq> TLS_SUCCESS \<and> cp' = Some c \<and> pl' = pl)
       \<or> (r = TLS_SUCCESS \<and> state c = TLS_STATE_APPLICATION_DATA \<and> n mod 16 = 0
            \<and> cp' = Some (c\<lparr>sequence_number := sequence_number c + 1\<rparr>) \<and> pl' = Some n)"
  using assms
  by (auto simp: tls1_3_decrypt_data_def split: option.splits if_splits)

lemma encrypt_success_D:
  assumes "tls1_3_encrypt_data P ctxp plaintext n ciphertext cl
             = Some (TLS_SUCCESS, ctxp', ciphertext', cl')"
  shows "\<exists>ctx p ct ct'. ctxp = Some ctx \<and> plaintext = Some p \<and> ciphertext = Some ct
           \<and> ciphertext' = Some ct'
           \<and> state ctx = TLS_STATE_APPLICATION_DATA \<and> n mod 16 = 0
           \<and> block_loop (aes_encrypt_block P) (aes_ctx ctx) p 0 (n div 16) ct
                = Some (TLS_SUCCESS, ct')
           \<and> ctxp' = Some (ctx\<lparr>sequence_number := sequence_number ctx + 1\<rparr>)
           \<and> cl' = Some n"
  using assms
  by (auto simp: tls1_3_encrypt_data_def split: option.splits if_splits)

lemma decrypt_success_D:
  assumes "tls1_3_decrypt_data P ctxp ciphertext n plaintext pl
             = Some (TLS_SUCCESS, ctxp', plaintext', pl')"
  shows "\<exists>ctx c pt pt'. ctxp = Some ctx \<and> ciphertext = Some c \<and> plaintext = Some pt
           \<and> plaintext' = Some pt'
           \<and> state ctx = TLS_STATE_APPLICATION_DATA \<and> n mod 16 = 0
           \<and> block_loop (aes_decrypt_block P) (aes_ctx ctx) c 0 (n div 16) pt
                = Some (TLS_SUCCESS, pt')
           \<and> ctxp' = Some (ctx\<lparr>sequence_number := sequence_number ctx + 1\<rparr>)
           \<and> pl' = Some n"
  using assms
  by (auto simp: tls1_3_decrypt_data_def split: option.splits if_splits)

lemma init_cases:
  assumes "tls1_3_init ma ms mr me (Some c0) = (r, rel, cp)"
  shows "\<exists>c. cp = Some c \<and> state c = TLS_STATE_CLIENT_HELLO \<and> sequence_number c = 0
           \<and> (r = TLS_SUCCESS \<or> r = TLS_ERROR_MEMORY_ALLOCATION)"
  using assms
  by (auto simp: tls1_3_init_def tls1_3_cleanup_def memset_context_0_def Let_def
           split: if_splits)

lemma reachable_invariant:
  "reachable P c \<Longrightarrow>
     state c \<in> {TLS_STATE_CLIENT_HELLO, TLS_STATE_SERVER_HELLO, TLS_STATE_CHANGE_CIPHER_SPEC}
     \<and> sequence_number c = 0"
proof (induction rule: reachable.induct)
  case (init ma ms mr me c0 r rel c)
  then show ?case by (auto dest: init_cases)
next
  case (step c c')
  from step.hyps(2) show ?case
  proof cases
    case (handshake datap n r)
    from process_handshake_cases [OF handshake] step.IH show ?thesis by auto
  next
    case (encrypt pt n ct cl r ct' cl')
    from encrypt_cases [OF encrypt] step.IH show ?thesis by auto
  next
    case (decrypt ct n pt pl r pt' pl')
    from decrypt_cases [OF decrypt] step.IH show ?thesis by auto
  qed
qed

text \<open>One call changes the sequence counter by 0 or by 1 (modulo \<open>2^64\<close>).\<close>

lemma word_le_succ: "(x::u64) \<noteq> - 1 \<Longrightarrow> x \<le> x + 1"
  by (metis inc_less_eq_triv_imp nle_le)

lemma step_sequence_number:
  assumes "step P c c'"
  shows "sequence_number c' = sequence_number c \<or> sequence_number c' = sequence_number c + 1"
  using assms
proof cases
  case (handshake datap n r)
  from process_handshake_cases [OF handshake] show ?thesis by auto
next
  case (encrypt pt n ct cl r ct' cl')
  from encrypt_cases [OF encrypt] show ?thesis by auto
next
  case (decrypt ct n pt pl r pt' pl')
  from decrypt_cases [OF decrypt] show ?thesis by auto
qed



subsection \<open>Concrete runs\<close>

text \<open>Runs of the operations on the example data, evaluated by rewriting.\<close>

lemmas eval_defs = tls1_3_process_handshake_def tls_process_client_hello_def
  tls_process_server_hello_def tls_process_change_cipher_spec_def tls_process_finished_def
  msg_defs memcpy_from_def store_block_def fresh_context_def rev_provider_def
  failing_provider_def tls1_3_encrypt_data_def tls1_3_decrypt_data_def

lemma init_fresh:
  "tls1_3_init (Some []) (Some Sha256_context) (Some Rsa_context) (Some Ec_context)
     (Some fresh_context) = (TLS_SUCCESS, [], Some fresh_context)"
  by (simp add: tls1_3_init_def memset_context_0_def fresh_context_def)

lemma client_hello_fresh:
  "tls1_3_process_handshake P (Some fresh_context)
     (Some (1 # 0 # 0 # 32 # replicate 32 0x11)) 36
   = Some (TLS_SUCCESS, Some (fresh_context\<lparr>client_random := replicate 32 0x11,
                                state := TLS_STATE_SERVER_HELLO\<rparr>))"
  by (simp add: eval_defs)

lemma encrypt_example:
  "tls1_3_encrypt_data rev_provider
     (Some (fresh_context\<lparr>state := TLS_STATE_APPLICATION_DATA\<rparr>))
     (Some [0, 1, 2, 3, 4, 5, 6, 7, 8, 9, 10, 11, 12, 13, 14, 15]) 16
     (Some (replicate 20 0xEE)) (Some 0)
   = Some (TLS_SUCCESS,
       Some (fresh_context\<lparr>state := TLS_STATE_APPLICATION_DATA, sequence_number := 1\<rparr>),
       Some ([15, 14, 13, 12, 11, 10, 9, 8, 7, 6, 5, 4, 3, 2, 1, 0] @ replicate 4 0xEE),
       Some 16)"
  by (simp add: eval_defs)

lemma decrypt_example:
  "tls1_3_decrypt_data rev_provider
     (Some (fresh_context\<lparr>state := TLS_STATE_APPLICATION_DATA, sequence_number := 1\<rparr>))
     (Some ([15, 14, 13, 12, 11, 10, 9, 8, 7, 6, 5, 4, 3, 2, 1, 0] @ replicate 4 0xEE)) 16
     (Some (replicate 16 0)) (Some 0)
   = Some (TLS_SUCCESS,
       Some (fresh_context\<lparr>state := TLS_STATE_APPLICATION_DATA, sequence_number := 2\<rparr>),
       Some [0, 1, 2, 3, 4, 5, 6, 7, 8, 9, 10, 11, 12, 13, 14, 15], Some 16)"
  by (simp add: eval_defs)

lemma encrypt_misaligned_example:
  "tls1_3_encrypt_data rev_provider
     (Some (fresh_context\<lparr>state := TLS_STATE_APPLICATION_DATA\<rparr>))
     (Some [0, 1, 2, 3, 4]) 5 (Some (replicate 20 0xEE)) (Some 0)
   = Some (TLS_ERROR_INVALID_BLOCK_SIZE,
       Some (fresh_context\<lparr>state := TLS_STATE_APPLICATION_DATA\<rparr>),
       Some (replicate 20 0xEE), Some 0)"
  by (simp add: eval_defs)

lemma decrypt_provider_error_example:
  "tls1_3_decrypt_data rev_provider
     (Some (fresh_context\<lparr>state := TLS_STATE_APPLICATION_DATA, aes_ctx := None\<rparr>))
     (Some (replicate 16 7)) 16 (Some (replicate 16 0)) (Some 0)
   = Some (TLS_ERROR_CRYPTO_FAILURE,
       Some (fresh_context\<lparr>state := TLS_STATE_APPLICATION_DATA, aes_ctx := None\<rparr>),
       Some (replicate 16 0), Some 0)"
  by (simp add: eval_defs)



section \<open>The claims\<close>

text \<open>
  C1 (the code departs from it). A freshly initialised context accepts a well-formed
  CLIENT\_HELLO (36 bytes) and a well-formed SERVER\_HELLO (36 bytes) and is then in
  \<^verbatim>\<open>TLS_STATE_CHANGE_CIPHER_SPEC\<close>. The CHANGE\_CIPHER\_SPEC message with payload flag 1
  (header \<open>20, 0, 0, 1\<close> and payload \<open>1\<close>) is then answered with
  \<^verbatim>\<open>TLS_ERROR_INVALID_MESSAGE\<close> and the context stays as it was; so is the bare payload
  \<open>[1]\<close>. The handshake does not reach \<^verbatim>\<open>TLS_STATE_APPLICATION_DATA\<close>.
\<close>

theorem handshake_stops_at_change_cipher_spec:
  "tls1_3_init (Some []) (Some Sha256_context) (Some Rsa_context) (Some Ec_context)
     (Some fresh_context) = (TLS_SUCCESS, [], Some fresh_context)
   \<and> tls1_3_process_handshake P (Some fresh_context)
        (Some (TLS_MSG_CLIENT_HELLO # 0 # 0 # 32 # replicate 32 0x11)) 36
      = Some (TLS_SUCCESS,
              Some (fresh_context\<lparr>client_random := replicate 32 0x11,
                                   state := TLS_STATE_SERVER_HELLO\<rparr>))
   \<and> tls1_3_process_handshake P
        (Some (fresh_context\<lparr>client_random := replicate 32 0x11,
                             state := TLS_STATE_SERVER_HELLO\<rparr>))
        (Some (TLS_MSG_SERVER_HELLO # 0 # 0 # 32 # replicate 32 0x22)) 36
      = Some (TLS_SUCCESS,
              Some (fresh_context\<lparr>client_random := replicate 32 0x11,
                                   server_random := replicate 32 0x22,
                                   state := TLS_STATE_CHANGE_CIPHER_SPEC\<rparr>))
   \<and> tls1_3_process_handshake P
        (Some (fresh_context\<lparr>client_random := replicate 32 0x11,
                             server_random := replicate 32 0x22,
                             state := TLS_STATE_CHANGE_CIPHER_SPEC\<rparr>))
        (Some [TLS_MSG_CHANGE_CIPHER_SPEC, 0, 0, 1, 1]) 5
      = Some (TLS_ERROR_INVALID_MESSAGE,
              Some (fresh_context\<lparr>client_random := replicate 32 0x11,
                                   server_random := replicate 32 0x22,
                                   state := TLS_STATE_CHANGE_CIPHER_SPEC\<rparr>))
   \<and> tls1_3_process_handshake P
        (Some (fresh_context\<lparr>client_random := replicate 32 0x11,
                             server_random := replicate 32 0x22,
                             state := TLS_STATE_CHANGE_CIPHER_SPEC\<rparr>))
        (Some [1]) 1
      = Some (TLS_ERROR_INVALID_MESSAGE,
              Some (fresh_context\<lparr>client_random := replicate 32 0x11,
                                   server_random := replicate 32 0x22,
                                   state := TLS_STATE_CHANGE_CIPHER_SPEC\<rparr>))"
  by (simp add: eval_defs tls1_3_init_def memset_context_0_def)

text \<open>
  C2 as stated fails: with the example provider, the ciphertext that
  \<^verbatim>\<open>tls1_3_encrypt_data\<close> produces for the block \<open>0, 1, \<dots>, 15\<close> is decrypted, after
  one bit of its first byte is flipped, with \<^verbatim>\<open>TLS_SUCCESS\<close> to a plaintext that differs
  from the original.
\<close>

theorem bit_flip_counterexample:
  "tls1_3_encrypt_data rev_provider
     (Some (fresh_context\<lparr>state := TLS_STATE_APPLICATION_DATA\<rparr>))
     (Some [0, 1, 2, 3, 4, 5, 6, 7, 8, 9, 10, 11, 12, 13, 14, 15]) 16
     (Some (replicate 16 0)) (Some 0)
   = Some (TLS_SUCCESS,
       Some (fresh_context\<lparr>state := TLS_STATE_APPLICATION_DATA, sequence_number := 1\<rparr>),
       Some [15, 14, 13, 12, 11, 10, 9, 8, 7, 6, 5, 4, 3, 2, 1, 0], Some 16)
   \<and> tls1_3_decrypt_data rev_provider
     (Some (fresh_context\<lparr>state := TLS_STATE_APPLICATION_DATA, sequence_number := 1\<rparr>))
     (Some [15 XOR 1, 14, 13, 12, 11, 10, 9, 8, 7, 6, 5, 4, 3, 2, 1, 0]) 16
     (Some (replicate 16 0)) (Some 0)
   = Some (TLS_SUCCESS,
       Some (fresh_context\<lparr>state := TLS_STATE_APPLICATION_DATA, sequence_number := 2\<rparr>),
       Some [0, 1, 2, 3, 4, 5, 6, 7, 8, 9, 10, 11, 12, 13, 14, 14], Some 16)
   \<and> [0, 1, 2, 3, 4, 5, 6, 7, 8, 9, 10, 11, 12, 13, 14, 14]
       \<noteq> [0, 1, 2, 3, 4, 5, 6, 7, 8, 9, 10, 11, 12, 13, 14, 15 :: u8]"
  by (simp add: eval_defs)

text \<open>
  C2, amended. \<^verbatim>\<open>tls1_3_decrypt_data\<close> verifies no authentication tag. In state
  \<^verbatim>\<open>TLS_STATE_APPLICATION_DATA\<close>, for any ciphertext of block-aligned length (as
  produced by encrypt, or altered) in buffers that hold that length, the call returns;
  it returns \<^verbatim>\<open>TLS_ERROR_CRYPTO_FAILURE\<close> exactly when the provider's block decrypt
  reports an error for one of the blocks, leaving context and reported length unchanged;
  otherwise it returns \<^verbatim>\<open>TLS_SUCCESS\<close>, and the plaintext is the provider's block-wise
  decryption of the bytes it was given.
\<close>

theorem decrypt_checks_no_tag:
  fixes P :: "'a crypto_provider" and ctx :: "'a tls1_3_context"
  assumes st: "state ctx = TLS_STATE_APPLICATION_DATA"
    and al: "n mod 16 = 0"
    and cap: "n \<le> length c" "n \<le> length obuf"
  shows "\<exists>r out. tls1_3_decrypt_data P (Some ctx) (Some c) n (Some obuf) (Some pl)
                   = Some (r,
                       (if r = TLS_SUCCESS
                        then Some (ctx\<lparr>sequence_number := sequence_number ctx + 1\<rparr>)
                        else Some ctx),
                       Some out,
                       (if r = TLS_SUCCESS then Some n else Some pl))
           \<and> (r = TLS_SUCCESS \<or> r = TLS_ERROR_CRYPTO_FAILURE)
           \<and> (r = TLS_ERROR_CRYPTO_FAILURE \<longleftrightarrow>
                (\<exists>j<n div 16. fst (aes_decrypt_block P (aes_ctx ctx) (take 16 (drop (j * 16) c)))
                                \<noteq> AES_SUCCESS))
           \<and> (r = TLS_SUCCESS \<longrightarrow>
                (\<forall>j<n div 16.
                    length (snd (aes_decrypt_block P (aes_ctx ctx) (take 16 (drop (j * 16) c))))
                      = 16) \<longrightarrow>
                take n out =
                  concat (map (\<lambda>j. snd (aes_decrypt_block P (aes_ctx ctx)
                                          (take 16 (drop (j * 16) c))))
                              [0..<n div 16]))"
proof -
  define k where "k = n div 16"
  define a where "a = aes_ctx ctx"
  define g where "g j = snd (aes_decrypt_block P a (take 16 (drop (j * 16) c)))" for j
  from al have n: "k * 16 = n" by (auto simp: k_def)
  from block_loop_total [of 0 k c obuf "aes_decrypt_block P" a] n cap
  obtain r out where
    loop: "block_loop (aes_decrypt_block P) a c 0 k obuf = Some (r, out)"
    and iff: "r = TLS_SUCCESS \<longleftrightarrow>
                (\<forall>j<k. fst (aes_decrypt_block P a (take 16 (drop (j * 16) c))) = AES_SUCCESS)"
    by auto
  from block_loop_result [OF loop] have res: "r = TLS_SUCCESS \<or> r = TLS_ERROR_CRYPTO_FAILURE" .
  have call: "tls1_3_decrypt_data P (Some ctx) (Some c) n (Some obuf) (Some pl)
                = Some (r,
                       (if r = TLS_SUCCESS
                        then Some (ctx\<lparr>sequence_number := sequence_number ctx + 1\<rparr>)
                        else Some ctx),
                       Some out,
                       (if r = TLS_SUCCESS then Some n else Some pl))"
    using st al loop by (simp add: tls1_3_decrypt_data_def k_def a_def)
  have fail: "r = TLS_ERROR_CRYPTO_FAILURE \<longleftrightarrow>
                (\<exists>j<k. fst (aes_decrypt_block P a (take 16 (drop (j * 16) c))) \<noteq> AES_SUCCESS)"
    using iff res by auto
  have plain: "take n out = concat (map g [0..<k])"
    if ok: "r = TLS_SUCCESS" and len: "\<forall>j<k. length (g j) = 16"
  proof -
    have "block_loop (aes_decrypt_block P) a c 0 k obuf
            = Some (TLS_SUCCESS, take (0 * 16) obuf @ concat (map g [0..<0 + k])
                                   @ drop ((0 + k) * 16) obuf)"
    proof (rule block_loop_success)
      fix j assume "0 \<le> j" "j < 0 + k"
      with ok iff len
      show "aes_decrypt_block P a (take 16 (drop (j * 16) c)) = (AES_SUCCESS, g j)
              \<and> length (g j) = 16"
        by (auto simp: g_def prod_eq_iff)
    qed (use n cap in simp_all)
    with loop have "out = concat (map g [0..<k]) @ drop n obuf"
      using n by simp
    moreover have "length (concat (map g [0..<k])) = n"
      using length_concat_blocks [of "[0..<k]" g] len n by simp
    ultimately show ?thesis by simp
  qed
  from call res fail plain show ?thesis
    unfolding g_def k_def a_def by blast
qed

theorem decrypt_checks_no_tag_witness:
  "state (fresh_context\<lparr>state := TLS_STATE_APPLICATION_DATA, sequence_number := 1\<rparr>)
     = TLS_STATE_APPLICATION_DATA
   \<and> (16::nat) mod 16 = 0
   \<and> 16 \<le> length [14, 14, 13, 12, 11, 10, 9, 8, 7, 6, 5, 4, 3, 2, 1, 0 :: u8]
   \<and> 16 \<le> length (replicate 16 (0::u8))
   \<and> (\<exists>r out. tls1_3_decrypt_data rev_provider
         (Some (fresh_context\<lparr>state := TLS_STATE_APPLICATION_DATA, sequence_number := 1\<rparr>))
         (Some [14, 14, 13, 12, 11, 10, 9, 8, 7, 6, 5, 4, 3, 2, 1, 0]) 16
         (Some (replicate 16 0)) (Some 0)
       = Some (r,
           Some (fresh_context\<lparr>state := TLS_STATE_APPLICATION_DATA, sequence_number := 2\<rparr>),
           Some out, Some 16)
       \<and> r = TLS_SUCCESS
       \<and> (\<forall>j<16 div 16.
             length (snd (aes_decrypt_block rev_provider
               (aes_ctx (fresh_context\<lparr>state := TLS_STATE_APPLICATION_DATA,
                                        sequence_number := 1\<rparr>))
               (take 16 (drop (j * 16) [14, 14, 13, 12, 11, 10, 9, 8, 7, 6, 5, 4, 3, 2, 1, 0]))))
             = 16)
       \<and> take 16 out = [0, 1, 2, 3, 4, 5, 6, 7, 8, 9, 10, 11, 12, 13, 14, 14])"
proof -
  let ?ctx = "fresh_context\<lparr>state := TLS_STATE_APPLICATION_DATA, sequence_number := 1\<rparr>"
  let ?c = "[14, 14, 13, 12, 11, 10, 9, 8, 7, 6, 5, 4, 3, 2, 1, 0 :: u8]"
  have h: "state ?ctx = TLS_STATE_APPLICATION_DATA" "(16::nat) mod 16 = 0"
    "16 \<le> length ?c" "16 \<le> length (replicate 16 (0::u8))"
    by simp_all
  have ev: "tls1_3_decrypt_data rev_provider (Some ?ctx) (Some ?c) 16
         (Some (replicate 16 0)) (Some 0)
       = Some (TLS_SUCCESS,
           Some (fresh_context\<lparr>state := TLS_STATE_APPLICATION_DATA, sequence_number := 2\<rparr>),
           Some [0, 1, 2, 3, 4, 5, 6, 7, 8, 9, 10, 11, 12, 13, 14, 14], Some 16)"
    by (simp add: eval_defs)
  have len: "\<forall>j<16 div 16.
             length (snd (aes_decrypt_block rev_provider (aes_ctx ?ctx)
               (take 16 (drop (j * 16) ?c)))) = 16"
    by (simp add: rev_provider_def fresh_context_def)
  from decrypt_checks_no_tag [OF h, of rev_provider 0] ev len h show ?thesis
    by simp
qed

text \<open>
  C3 (the code departs from it). The code of CHANGE\_CIPHER\_SPEC and the code of FINISHED
  are the same number, 20. A FINISHED message that \<^verbatim>\<open>tls_process_finished\<close> would accept
  in \<^verbatim>\<open>TLS_STATE_FINISHED\<close> is therefore dispatched to the CHANGE\_CIPHER\_SPEC handler
  and answered with \<^verbatim>\<open>TLS_ERROR_INVALID_STATE\<close>.
\<close>

theorem message_type_codes_collide:
  "TLS_MSG_CHANGE_CIPHER_SPEC = TLS_MSG_FINISHED
   \<and> tls_process_finished (fresh_context\<lparr>state := TLS_STATE_FINISHED\<rparr>)
        (TLS_MSG_FINISHED # 0 # 0 # 32 # replicate 32 0xAB) 36
      = Some (TLS_SUCCESS, fresh_context\<lparr>state := TLS_STATE_APPLICATION_DATA\<rparr>)
   \<and> tls1_3_process_handshake P (Some (fresh_context\<lparr>state := TLS_STATE_FINISHED\<rparr>))
        (Some (TLS_MSG_FINISHED # 0 # 0 # 32 # replicate 32 0xAB)) 36
      = Some (TLS_ERROR_INVALID_STATE, Some (fresh_context\<lparr>state := TLS_STATE_FINISHED\<rparr>))"
  by (simp add: eval_defs)

text \<open>
  C4. The sequence counter is 0 after \<^verbatim>\<open>tls1_3_init\<close>; a successful
  \<^verbatim>\<open>tls1_3_encrypt_data\<close> or \<^verbatim>\<open>tls1_3_decrypt_data\<close> adds exactly 1 to it; a failed
  one leaves it as it was; \<^verbatim>\<open>tls1_3_process_handshake\<close> never touches it; and in a
  reachable context no call makes it smaller. Only the last but one part is about
  reachable contexts; the others hold for every context, and the last part says that a
  call can make the counter smaller only by wrapping around from \<open>2^64 - 1\<close>.
\<close>

theorem sequence_number_discipline:
  "(tls1_3_init ma ms mr me (Some c0) = (r0, rel, Some ci) \<longrightarrow> sequence_number ci = 0)
   \<and> (tls1_3_encrypt_data P (Some c1) pt1 n1 ct1 cl1 = Some (TLS_SUCCESS, Some c1', ct1', cl1')
        \<longrightarrow> sequence_number c1' = sequence_number c1 + 1)
   \<and> (tls1_3_decrypt_data P (Some c2) ct2 n2 pt2 pl2 = Some (TLS_SUCCESS, Some c2', pt2', pl2')
        \<longrightarrow> sequence_number c2' = sequence_number c2 + 1)
   \<and> (r3 \<noteq> TLS_SUCCESS
        \<longrightarrow> tls1_3_encrypt_data P (Some c3) pt3 n3 ct3 cl3 = Some (r3, Some c3', ct3', cl3')
        \<longrightarrow> sequence_number c3' = sequence_number c3)
   \<and> (r4 \<noteq> TLS_SUCCESS
        \<longrightarrow> tls1_3_decrypt_data P (Some c4) ct4 n4 pt4 pl4 = Some (r4, Some c4', pt4', pl4')
        \<longrightarrow> sequence_number c4' = sequence_number c4)
   \<and> (tls1_3_process_handshake P (Some c5) d5 n5 = Some (r5, Some c5')
        \<longrightarrow> sequence_number c5' = sequence_number c5)
   \<and> (reachable P c6 \<longrightarrow> step P c6 c6' \<longrightarrow> sequence_number c6 \<le> sequence_number c6')
   \<and> (sequence_number c7 \<noteq> - 1 \<longrightarrow> step P c7 c7'
        \<longrightarrow> sequence_number c7 \<le> sequence_number c7')"
proof (intro conjI impI)
  assume "tls1_3_init ma ms mr me (Some c0) = (r0, rel, Some ci)"
  from init_cases [OF this] show "sequence_number ci = 0" by auto
next
  assume "tls1_3_encrypt_data P (Some c1) pt1 n1 ct1 cl1 = Some (TLS_SUCCESS, Some c1', ct1', cl1')"
  from encrypt_cases [OF this] show "sequence_number c1' = sequence_number c1 + 1" by auto
next
  assume "tls1_3_decrypt_data P (Some c2) ct2 n2 pt2 pl2 = Some (TLS_SUCCESS, Some c2', pt2', pl2')"
  from decrypt_cases [OF this] show "sequence_number c2' = sequence_number c2 + 1" by auto
next
  assume "r3 \<noteq> TLS_SUCCESS"
    and "tls1_3_encrypt_data P (Some c3) pt3 n3 ct3 cl3 = Some (r3, Some c3', ct3', cl3')"
  from encrypt_cases [OF this(2)] this(1) show "sequence_number c3' = sequence_number c3" by auto
next
  assume "r4 \<noteq> TLS_SUCCESS"
    and "tls1_3_decrypt_data P (Some c4) ct4 n4 pt4 pl4 = Some (r4, Some c4', pt4', pl4')"
  from decrypt_cases [OF this(2)] this(1) show "sequence_number c4' = sequence_number c4" by auto
next
  assume "tls1_3_process_handshake P (Some c5) d5 n5 = Some (r5, Some c5')"
  from process_handshake_cases [OF this] show "sequence_number c5' = sequence_number c5" by auto
next
  assume r: "reachable P c6" and s: "step P c6 c6'"
  from reachable_invariant [OF r] have "sequence_number c6 = 0" by simp
  then show "sequence_number c6 \<le> sequence_number c6'" by simp
next
  assume "sequence_number c7 \<noteq> - 1" and "step P c7 c7'"
  with step_sequence_number [of P c7 c7'] word_le_succ [of "sequence_number c7"]
  show "sequence_number c7 \<le> sequence_number c7'" by auto
qed

theorem sequence_number_discipline_witness:
  "tls1_3_init (Some []) (Some Sha256_context) (Some Rsa_context) (Some Ec_context)
     (Some fresh_context) = (TLS_SUCCESS, [], Some fresh_context)
   \<and> sequence_number fresh_context = 0
   \<and> tls1_3_encrypt_data rev_provider
        (Some (fresh_context\<lparr>state := TLS_STATE_APPLICATION_DATA\<rparr>))
        (Some [0, 1, 2, 3, 4, 5, 6, 7, 8, 9, 10, 11, 12, 13, 14, 15]) 16
        (Some (replicate 20 0xEE)) (Some 0)
      = Some (TLS_SUCCESS,
          Some (fresh_context\<lparr>state := TLS_STATE_APPLICATION_DATA, sequence_number := 1\<rparr>),
          Some ([15, 14, 13, 12, 11, 10, 9, 8, 7, 6, 5, 4, 3, 2, 1, 0] @ replicate 4 0xEE),
          Some 16)
   \<and> sequence_number (fresh_context\<lparr>state := TLS_STATE_APPLICATION_DATA, sequence_number := 1\<rparr>)
      = sequence_number (fresh_context\<lparr>state := TLS_STATE_APPLICATION_DATA\<rparr>) + 1
   \<and> tls1_3_decrypt_data rev_provider
        (Some (fresh_context\<lparr>state := TLS_STATE_APPLICATION_DATA, sequence_number := 1\<rparr>))
        (Some ([15, 14, 13, 12, 11, 10, 9, 8, 7, 6, 5, 4, 3, 2, 1, 0] @ replicate 4 0xEE)) 16
        (Some (replicate 16 0)) (Some 0)
      = Some (TLS_SUCCESS,
          Some (fresh_context\<lparr>state := TLS_STATE_APPLICATION_DATA, sequence_number := 2\<rparr>),
          Some [0, 1, 2, 3, 4, 5, 6, 7, 8, 9, 10, 11, 12, 13, 14, 15], Some 16)
   \<and> sequence_number (fresh_context\<lparr>state := TLS_STATE_APPLICATION_DATA, sequence_number := 2\<rparr>)
      = sequence_number
          (fresh_context\<lparr>state := TLS_STATE_APPLICATION_DATA, sequence_number := 1\<rparr>) + 1
   \<and> TLS_ERROR_INVALID_BLOCK_SIZE \<noteq> TLS_SUCCESS
   \<and> tls1_3_encrypt_data rev_provider
        (Some (fresh_context\<lparr>state := TLS_STATE_APPLICATION_DATA\<rparr>))
        (Some [0, 1, 2, 3, 4]) 5 (Some (replicate 20 0xEE)) (Some 0)
      = Some (TLS_ERROR_INVALID_BLOCK_SIZE,
          Some (fresh_context\<lparr>state := TLS_STATE_APPLICATION_DATA\<rparr>),
          Some (replicate 20 0xEE), Some 0)
   \<and> TLS_ERROR_CRYPTO_FAILURE \<noteq> TLS_SUCCESS
   \<and> tls1_3_decrypt_data rev_provider
        (Some (fresh_context\<lparr>state := TLS_STATE_APPLICATION_DATA, aes_ctx := None\<rparr>))
        (Some (replicate 16 7)) 16 (Some (replicate 16 0)) (Some 0)
      = Some (TLS_ERROR_CRYPTO_FAILURE,
          Some (fresh_context\<lparr>state := TLS_STATE_APPLICATION_DATA, aes_ctx := None\<rparr>),
          Some (replicate 16 0), Some 0)
   \<and> tls1_3_process_handshake rev_provider (Some fresh_context)
        (Some (1 # 0 # 0 # 32 # replicate 32 0x11)) 36
      = Some (TLS_SUCCESS, Some (fresh_context\<lparr>client_random := replicate 32 0x11,
                                   state := TLS_STATE_SERVER_HELLO\<rparr>))
   \<and> sequence_number (fresh_context\<lparr>client_random := replicate 32 0x11,
                                   state := TLS_STATE_SERVER_HELLO\<rparr>)
      = sequence_number fresh_context
   \<and> reachable rev_provider fresh_context
   \<and> step rev_provider fresh_context
        (fresh_context\<lparr>client_random := replicate 32 0x11, state := TLS_STATE_SERVER_HELLO\<rparr>)
   \<and> sequence_number fresh_context
      \<le> sequence_number (fresh_context\<lparr>client_random := replicate 32 0x11,
                                   state := TLS_STATE_SERVER_HELLO\<rparr>)
   \<and> sequence_number (fresh_context\<lparr>state := TLS_STATE_APPLICATION_DATA\<rparr>) \<noteq> - 1
   \<and> step rev_provider (fresh_context\<lparr>state := TLS_STATE_APPLICATION_DATA\<rparr>)
        (fresh_context\<lparr>state := TLS_STATE_APPLICATION_DATA, sequence_number := 1\<rparr>)
   \<and> sequence_number (fresh_context\<lparr>state := TLS_STATE_APPLICATION_DATA\<rparr>)
      \<le> sequence_number
           (fresh_context\<lparr>state := TLS_STATE_APPLICATION_DATA, sequence_number := 1\<rparr>)"
proof -
  note i = init_fresh
  note e = encrypt_example
  note d = decrypt_example
  note ef = encrypt_misaligned_example
  note df = decrypt_provider_error_example
  note h = client_hello_fresh [of rev_provider]
  have r: "reachable rev_provider fresh_context"
    by (rule reachable.init [OF i])
  have s: "step rev_provider fresh_context
        (fresh_context\<lparr>client_random := replicate 32 0x11, state := TLS_STATE_SERVER_HELLO\<rparr>)"
    by (rule step.handshake [OF h])
  have s': "step rev_provider (fresh_context\<lparr>state := TLS_STATE_APPLICATION_DATA\<rparr>)
        (fresh_context\<lparr>state := TLS_STATE_APPLICATION_DATA, sequence_number := 1\<rparr>)"
    by (rule step.encrypt [OF e])
  have m: "sequence_number (fresh_context\<lparr>state := TLS_STATE_APPLICATION_DATA\<rparr>) \<noteq> - 1"
    by (simp add: fresh_context_def)
  from sequence_number_discipline
    [of "Some []" "Some Sha256_context" "Some Rsa_context" "Some Ec_context" fresh_context
        TLS_SUCCESS "[]" fresh_context
        rev_provider
        "fresh_context\<lparr>state := TLS_STATE_APPLICATION_DATA\<rparr>"
        "Some [0, 1, 2, 3, 4, 5, 6, 7, 8, 9, 10, 11, 12, 13, 14, 15]" 16
        "Some (replicate 20 0xEE)" "Some 0"
        "fresh_context\<lparr>state := TLS_STATE_APPLICATION_DATA, sequence_number := 1\<rparr>"
        "Some ([15, 14, 13, 12, 11, 10, 9, 8, 7, 6, 5, 4, 3, 2, 1, 0] @ replicate 4 0xEE)"
        "Some 16"
        "fresh_context\<lparr>state := TLS_STATE_APPLICATION_DATA, sequence_number := 1\<rparr>"
        "Some ([15, 14, 13, 12, 11, 10, 9, 8, 7, 6, 5, 4, 3, 2, 1, 0] @ replicate 4 0xEE)" 16
        "Some (replicate 16 0)" "Some 0"
        "fresh_context\<lparr>state := TLS_STATE_APPLICATION_DATA, sequence_number := 2\<rparr>"
        "Some [0, 1, 2, 3, 4, 5, 6, 7, 8, 9, 10, 11, 12, 13, 14, 15]" "Some 16"
        TLS_ERROR_INVALID_BLOCK_SIZE
        "fresh_context\<lparr>state := TLS_STATE_APPLICATION_DATA\<rparr>"
        "Some [0, 1, 2, 3, 4]" 5 "Some (replicate 20 0xEE)" "Some 0"
        "fresh_context\<lparr>state := TLS_STATE_APPLICATION_DATA\<rparr>"
        "Some (replicate 20 0xEE)" "Some 0"
        TLS_ERROR_CRYPTO_FAILURE
        "fresh_context\<lparr>state := TLS_STATE_APPLICATION_DATA, aes_ctx := None\<rparr>"
        "Some (replicate 16 7)" 16 "Some (replicate 16 0)" "Some 0"
        "fresh_context\<lparr>state := TLS_STATE_APPLICATION_DATA, aes_ctx := None\<rparr>"
        "Some (replicate 16 0)" "Some 0"
        fresh_context "Some (1 # 0 # 0 # 32 # replicate 32 0x11)" 36 TLS_SUCCESS
        "fresh_context\<lparr>client_random := replicate 32 0x11, state := TLS_STATE_SERVER_HELLO\<rparr>"
        fresh_context
        "fresh_context\<lparr>client_random := replicate 32 0x11, state := TLS_STATE_SERVER_HELLO\<rparr>"
        "fresh_context\<lparr>state := TLS_STATE_APPLICATION_DATA\<rparr>"
        "fresh_context\<lparr>state := TLS_STATE_APPLICATION_DATA, sequence_number := 1\<rparr>"]
    i e d ef df h r s s' m
  show ?thesis by (intro conjI) (blast+)?
qed

text \<open>
  C5. In state \<^verbatim>\<open>TLS_STATE_APPLICATION_DATA\<close>, for a plaintext \<open>p\<close> whose length is a
  multiple of 16 and output buffers that hold that length, when the provider encrypts
  every 16-byte block and its block decrypt undoes its block encrypt under the installed
  AES context, \<^verbatim>\<open>tls1_3_encrypt_data\<close> succeeds, and \<^verbatim>\<open>tls1_3_decrypt_data\<close>, called
  on the resulting context and ciphertext, succeeds and returns exactly \<open>p\<close>.
\<close>

theorem encrypt_decrypt_roundtrip:
  fixes P :: "'a crypto_provider" and ctx :: "'a tls1_3_context"
  assumes st: "state ctx = TLS_STATE_APPLICATION_DATA"
    and al: "length p mod 16 = 0"
    and cap: "length p \<le> length cbuf" "length p \<le> length obuf"
    and inv: "\<And>b. length b = 16 \<Longrightarrow>
               \<exists>cb. aes_encrypt_block P (aes_ctx ctx) b = (AES_SUCCESS, cb) \<and> length cb = 16
                  \<and> aes_decrypt_block P (aes_ctx ctx) cb = (AES_SUCCESS, b)"
  shows "\<exists>ctx' c. tls1_3_encrypt_data P (Some ctx) (Some p) (length p) (Some cbuf) (Some cl)
                    = Some (TLS_SUCCESS, Some ctx', Some c, Some (length p))
           \<and> (\<exists>ctx'' out. tls1_3_decrypt_data P (Some ctx') (Some c) (length p) (Some obuf) (Some ol)
                    = Some (TLS_SUCCESS, Some ctx'', Some out, Some (length p))
                 \<and> take (length p) out = p)"
proof -
  define k where "k = length p div 16"
  define a where "a = aes_ctx ctx"
  define blk where "blk j = take 16 (drop (j * 16) p)" for j
  define g where "g j = snd (aes_encrypt_block P a (blk j))" for j
  from al have n: "k * 16 = length p" by (auto simp: k_def)
  have blk_len: "length (blk j) = 16" if "j < k" for j
    using that n by (simp add: blk_def)
  have enc_j: "aes_encrypt_block P a (blk j) = (AES_SUCCESS, g j) \<and> length (g j) = 16"
    and dec_j: "aes_decrypt_block P a (g j) = (AES_SUCCESS, blk j)" if "j < k" for j
    using inv [OF blk_len [OF that]] by (auto simp: g_def a_def)
  let ?c = "concat (map g [0..<k]) @ drop (k * 16) cbuf"
  have loop_e: "block_loop (aes_encrypt_block P) a p 0 k cbuf = Some (TLS_SUCCESS, ?c)"
    using block_loop_success [of 0 k "aes_encrypt_block P" a p g cbuf] enc_j n cap(1)
    by (simp add: blk_def)
  have len_c: "length ?c = length cbuf"
    using block_loop_length [OF loop_e] .
  have c_j: "take 16 (drop (j * 16) ?c) = g j" if "j < k" for j
    by (rule block_of_concat) (use enc_j that in auto)
  let ?out = "concat (map blk [0..<k]) @ drop (k * 16) obuf"
  have loop_d: "block_loop (aes_decrypt_block P) a ?c 0 k obuf = Some (TLS_SUCCESS, ?out)"
    using block_loop_success [of 0 k "aes_decrypt_block P" a ?c blk obuf]
      c_j dec_j blk_len n cap len_c
    by simp
  have "blk = (\<lambda>j. take 16 (drop (j * 16) p))"
    by (rule ext) (simp add: blk_def)
  then have "concat (map blk [0..<k]) = take (k * 16) (drop (0 * 16) p)"
    using concat_blocks [of 0 k p] n by simp
  with n have out: "?out = p @ drop (length p) obuf" by simp
  let ?ctx' = "ctx\<lparr>sequence_number := sequence_number ctx + 1\<rparr>"
  let ?ctx'' = "?ctx'\<lparr>sequence_number := sequence_number ?ctx' + 1\<rparr>"
  have e: "tls1_3_encrypt_data P (Some ctx) (Some p) (length p) (Some cbuf) (Some cl)
             = Some (TLS_SUCCESS, Some ?ctx', Some ?c, Some (length p))"
    using st al loop_e by (simp add: tls1_3_encrypt_data_def k_def a_def)
  have d: "tls1_3_decrypt_data P (Some ?ctx') (Some ?c) (length p) (Some obuf) (Some ol)
             = Some (TLS_SUCCESS, Some ?ctx'', Some ?out, Some (length p))"
    using st al loop_d by (simp add: tls1_3_decrypt_data_def k_def a_def)
  from e d out show ?thesis by simp
qed

theorem encrypt_decrypt_roundtrip_witness:
  "state (fresh_context\<lparr>state := TLS_STATE_APPLICATION_DATA\<rparr>) = TLS_STATE_APPLICATION_DATA
   \<and> length ([0, 1, 2, 3, 4, 5, 6, 7, 8, 9, 10, 11, 12, 13, 14, 15] @ replicate 16 (0x41::u8))
        mod 16 = 0
   \<and> length ([0, 1, 2, 3, 4, 5, 6, 7, 8, 9, 10, 11, 12, 13, 14, 15] @ replicate 16 (0x41::u8))
        \<le> length (replicate 32 (0::u8))
   \<and> (\<exists>ctx' c. tls1_3_encrypt_data rev_provider
                   (Some (fresh_context\<lparr>state := TLS_STATE_APPLICATION_DATA\<rparr>))
                   (Some ([0, 1, 2, 3, 4, 5, 6, 7, 8, 9, 10, 11, 12, 13, 14, 15]
                          @ replicate 16 0x41)) 32
                   (Some (replicate 32 0)) (Some 0)
                 = Some (TLS_SUCCESS, Some ctx', Some c, Some 32)
         \<and> (\<exists>ctx'' out. tls1_3_decrypt_data rev_provider (Some ctx') (Some c) 32
                           (Some (replicate 32 0)) (Some 0)
                         = Some (TLS_SUCCESS, Some ctx'', Some out, Some 32)
               \<and> take 32 out = [0, 1, 2, 3, 4, 5, 6, 7, 8, 9, 10, 11, 12, 13, 14, 15]
                                  @ replicate 16 0x41))"
proof -
  let ?ctx = "fresh_context\<lparr>state := TLS_STATE_APPLICATION_DATA\<rparr>"
  let ?p = "[0, 1, 2, 3, 4, 5, 6, 7, 8, 9, 10, 11, 12, 13, 14, 15] @ replicate 16 (0x41::u8)"
  have h: "state ?ctx = TLS_STATE_APPLICATION_DATA" "length ?p mod 16 = 0"
    "length ?p \<le> length (replicate 32 (0::u8))" "length ?p \<le> length (replicate 32 (0::u8))"
    by simp_all
  have inv: "\<exists>cb. aes_encrypt_block rev_provider (aes_ctx ?ctx) b = (AES_SUCCESS, cb)
                \<and> length cb = 16
                \<and> aes_decrypt_block rev_provider (aes_ctx ?ctx) cb = (AES_SUCCESS, b)"
    if "length b = 16" for b
    using that by (simp add: rev_provider_def fresh_context_def)
  have l: "length ?p = 32" by simp
  from encrypt_decrypt_roundtrip [OF h inv, of 0 0] h show ?thesis
    unfolding l by blast
qed

text \<open>
  C6 (the code departs from it). A FINISHED message (36 bytes, 32 of them verify-data)
  that arrives in \<^verbatim>\<open>TLS_STATE_CHANGE_CIPHER_SPEC\<close>, a state that accepts only
  CHANGE\_CIPHER\_SPEC, is answered with \<^verbatim>\<open>TLS_ERROR_INVALID_MESSAGE\<close>, not with
  \<^verbatim>\<open>TLS_ERROR_INVALID_STATE\<close>: having the code of CHANGE\_CIPHER\_SPEC, it goes to that
  handler, which finds the state right and the flag byte wrong. The context is unchanged.
  \<^verbatim>\<open>tls_process_finished\<close>, had it been given the message, answers
  \<^verbatim>\<open>TLS_ERROR_INVALID_STATE\<close>.
\<close>

theorem finished_in_change_cipher_spec_state:
  "tls1_3_process_handshake P
     (Some (fresh_context\<lparr>state := TLS_STATE_CHANGE_CIPHER_SPEC\<rparr>))
     (Some (TLS_MSG_FINISHED # 0 # 0 # 32 # replicate 32 0xAB)) 36
   = Some (TLS_ERROR_INVALID_MESSAGE,
           Some (fresh_context\<lparr>state := TLS_STATE_CHANGE_CIPHER_SPEC\<rparr>))
   \<and> tls1_3_get_state (Some (fresh_context\<lparr>state := TLS_STATE_CHANGE_CIPHER_SPEC\<rparr>))
       = TLS_STATE_CHANGE_CIPHER_SPEC
   \<and> tls_process_finished (fresh_context\<lparr>state := TLS_STATE_CHANGE_CIPHER_SPEC\<rparr>)
        (TLS_MSG_FINISHED # 0 # 0 # 32 # replicate 32 0xAB) 36
      = Some (TLS_ERROR_INVALID_STATE, fresh_context\<lparr>state := TLS_STATE_CHANGE_CIPHER_SPEC\<rparr>)"
  by (simp add: eval_defs tls1_3_get_state_def)




text \<open>
  C8 (the code departs from it). A CLIENT\_HELLO of 10 bytes, received into a 64-byte
  buffer, is accepted in \<^verbatim>\<open>TLS_STATE_CLIENT_HELLO\<close>: the call returns
  \<^verbatim>\<open>TLS_SUCCESS\<close>, moves to \<^verbatim>\<open>TLS_STATE_SERVER_HELLO\<close> and fills the client random
  with the 32 bytes at offset 4 of the buffer, 26 of them beyond the message. When the
  buffer is exactly as long as the message, the copy reads outside it. The same holds
  for a SERVER\_HELLO in \<^verbatim>\<open>TLS_STATE_SERVER_HELLO\<close>.
\<close>

theorem short_hello_is_accepted:
  "tls1_3_process_handshake P (Some fresh_context)
      (Some (TLS_MSG_CLIENT_HELLO # 0 # 0 # 6 # replicate 60 0xEE)) 10
    = Some (TLS_SUCCESS,
            Some (fresh_context\<lparr>client_random := replicate 32 0xEE,
                                 state := TLS_STATE_SERVER_HELLO\<rparr>))
   \<and> tls1_3_process_handshake P (Some fresh_context)
      (Some (TLS_MSG_CLIENT_HELLO # 0 # 0 # 6 # replicate 6 0xEE)) 10 = None
   \<and> tls1_3_process_handshake P (Some (fresh_context\<lparr>state := TLS_STATE_SERVER_HELLO\<rparr>))
      (Some (TLS_MSG_SERVER_HELLO # 0 # 0 # 6 # replicate 60 0xEE)) 10
    = Some (TLS_SUCCESS,
            Some (fresh_context\<lparr>server_random := replicate 32 0xEE,
                                 state := TLS_STATE_CHANGE_CIPHER_SPEC\<rparr>))
   \<and> tls1_3_process_handshake P (Some (fresh_context\<lparr>state := TLS_STATE_SERVER_HELLO\<rparr>))
      (Some (TLS_MSG_SERVER_HELLO # 0 # 0 # 6 # replicate 6 0xEE)) 10 = None"
  by (simp add: eval_defs)

text \<open>
  C9. After \<^verbatim>\<open>tls1_3_cleanup\<close> the two randoms, the master secret, the two write keys
  and the two write IVs are all zero bytes. A handle is released at most once, and a
  second cleanup of the same context releases nothing and leaves the same all-zero
  context. When an allocation fails in \<^verbatim>\<open>tls1_3_init\<close>, the cleanup it runs releases
  exactly the handles that were allocated, the context it leaves is all zero, and a
  further cleanup of that context releases nothing and changes nothing.
\<close>

theorem cleanup_zeroes_key_material:
  "(\<exists>rel z. tls1_3_cleanup (Some ctx) = (rel, Some z)
       \<and> client_random z = replicate 32 0 \<and> server_random z = replicate 32 0
       \<and> master_secret z = replicate 48 0
       \<and> client_write_key z = replicate 32 0 \<and> server_write_key z = replicate 32 0
       \<and> client_write_iv z = replicate 12 0 \<and> server_write_iv z = replicate 12 0
       \<and> distinct rel
       \<and> tls1_3_cleanup (Some z) = ([], Some z))
   \<and> (m_aes = None \<or> m_sha256 = None \<or> m_rsa = None \<or> m_ec = None \<longrightarrow>
        (\<exists>rel z. tls1_3_init m_aes m_sha256 m_rsa m_ec (Some ctx0)
                    = (TLS_ERROR_MEMORY_ALLOCATION, rel, Some z)
           \<and> rel = (if m_aes \<noteq> None then [Free_aes_ctx] else [])
                   @ (if m_sha256 \<noteq> None then [Free_sha256_ctx] else [])
                   @ (if m_rsa \<noteq> None then [Free_rsa_ctx] else [])
                   @ (if m_ec \<noteq> None then [Free_ec_ctx] else [])
           \<and> client_random z = replicate 32 0 \<and> server_random z = replicate 32 0
           \<and> master_secret z = replicate 48 0
           \<and> client_write_key z = replicate 32 0 \<and> server_write_key z = replicate 32 0
           \<and> client_write_iv z = replicate 12 0 \<and> server_write_iv z = replicate 12 0
           \<and> tls1_3_cleanup (Some z) = ([], Some z)))"
proof (intro conjI impI)
  show "\<exists>rel z. tls1_3_cleanup (Some ctx) = (rel, Some z)
       \<and> client_random z = replicate 32 0 \<and> server_random z = replicate 32 0
       \<and> master_secret z = replicate 48 0
       \<and> client_write_key z = replicate 32 0 \<and> server_write_key z = replicate 32 0
       \<and> client_write_iv z = replicate 12 0 \<and> server_write_iv z = replicate 12 0
       \<and> distinct rel
       \<and> tls1_3_cleanup (Some z) = ([], Some z)"
    by (simp add: tls1_3_cleanup_def memset_context_0_def)
next
  assume "m_aes = None \<or> m_sha256 = None \<or> m_rsa = None \<or> m_ec = None"
  then show "\<exists>rel z. tls1_3_init m_aes m_sha256 m_rsa m_ec (Some ctx0)
                    = (TLS_ERROR_MEMORY_ALLOCATION, rel, Some z)
           \<and> rel = (if m_aes \<noteq> None then [Free_aes_ctx] else [])
                   @ (if m_sha256 \<noteq> None then [Free_sha256_ctx] else [])
                   @ (if m_rsa \<noteq> None then [Free_rsa_ctx] else [])
                   @ (if m_ec \<noteq> None then [Free_ec_ctx] else [])
           \<and> client_random z = replicate 32 0 \<and> server_random z = replicate 32 0
           \<and> master_secret z = replicate 48 0
           \<and> client_write_key z = replicate 32 0 \<and> server_write_key z = replicate 32 0
           \<and> client_write_iv z = replicate 12 0 \<and> server_write_iv z = replicate 12 0
           \<and> tls1_3_cleanup (Some z) = ([], Some z)"
    by (auto simp: tls1_3_init_def tls1_3_cleanup_def memset_context_0_def)
qed

theorem cleanup_zeroes_key_material_witness:
  "(\<exists>rel z. tls1_3_cleanup
               (Some (fresh_context\<lparr>master_secret := replicate 48 7,
                                      client_write_key := replicate 32 9\<rparr>)) = (rel, Some z)
       \<and> client_random z = replicate 32 0 \<and> server_random z = replicate 32 0
       \<and> master_secret z = replicate 48 0
       \<and> client_write_key z = replicate 32 0 \<and> server_write_key z = replicate 32 0
       \<and> client_write_iv z = replicate 12 0 \<and> server_write_iv z = replicate 12 0
       \<and> distinct rel
       \<and> tls1_3_cleanup (Some z) = ([], Some z))
   \<and> (Some ([]::u8 list) = None \<or> (None :: sha256_context_t option) = None
        \<or> Some Rsa_context = None \<or> (None :: ec_context_t option) = None)
   \<and> (\<exists>z. tls1_3_init (Some []) None (Some Rsa_context) None (Some fresh_context)
                    = (TLS_ERROR_MEMORY_ALLOCATION, [Free_aes_ctx, Free_rsa_ctx], Some z)
           \<and> client_random z = replicate 32 0 \<and> server_random z = replicate 32 0
           \<and> master_secret z = replicate 48 0
           \<and> client_write_key z = replicate 32 0 \<and> server_write_key z = replicate 32 0
           \<and> client_write_iv z = replicate 12 0 \<and> server_write_iv z = replicate 12 0
           \<and> tls1_3_cleanup (Some z) = ([], Some z))"
  using cleanup_zeroes_key_material
    [of "fresh_context\<lparr>master_secret := replicate 48 7, client_write_key := replicate 32 9\<rparr>"
        "Some []" None "Some Rsa_context" None fresh_context]
  by simp

text \<open>
  C10. When \<^verbatim>\<open>tls1_3_encrypt_data\<close> succeeds, the length it reports in
  \<^verbatim>\<open>*ciphertext_len\<close> is exactly \<^verbatim>\<open>plaintext_len\<close>, and the output buffer is
  untouched from that offset on (nothing, in particular no authentication tag, is
  appended); when \<^verbatim>\<open>tls1_3_decrypt_data\<close> succeeds, the length it reports is exactly
  \<^verbatim>\<open>ciphertext_len\<close>, and likewise nothing is written beyond it.
\<close>

theorem reported_length_is_input_length:
  "(tls1_3_encrypt_data (P :: 'a crypto_provider) ctxp plaintext plaintext_len (Some ct) cl
      = Some (TLS_SUCCESS, ctxp', Some ct', cl')
    \<longrightarrow> cl' = Some plaintext_len \<and> length ct' = length ct
        \<and> drop plaintext_len ct' = drop plaintext_len ct)
   \<and> (tls1_3_decrypt_data P ctxq ciphertext ciphertext_len (Some pt) pl
      = Some (TLS_SUCCESS, ctxq', Some pt', pl')
    \<longrightarrow> pl' = Some ciphertext_len \<and> length pt' = length pt
        \<and> drop ciphertext_len pt' = drop ciphertext_len pt)"
proof (intro conjI impI)
  assume "tls1_3_encrypt_data P ctxp plaintext plaintext_len (Some ct) cl
      = Some (TLS_SUCCESS, ctxp', Some ct', cl')"
  from encrypt_success_D [OF this] obtain ctx :: "'a tls1_3_context" and p where
    m: "plaintext_len mod 16 = 0"
    and l: "block_loop (aes_encrypt_block P) (aes_ctx ctx) p 0 (plaintext_len div 16) ct
          = Some (TLS_SUCCESS, ct')"
    and c: "cl' = Some plaintext_len"
    by auto
  from m have "(0 + plaintext_len div 16) * 16 = plaintext_len" by auto
  with block_loop_drop [OF l] block_loop_length [OF l] c
  show "cl' = Some plaintext_len" "length ct' = length ct"
    "drop plaintext_len ct' = drop plaintext_len ct" by simp_all
next
  assume "tls1_3_decrypt_data P ctxq ciphertext ciphertext_len (Some pt) pl
      = Some (TLS_SUCCESS, ctxq', Some pt', pl')"
  from decrypt_success_D [OF this] obtain ctx :: "'a tls1_3_context" and c where
    m: "ciphertext_len mod 16 = 0"
    and l: "block_loop (aes_decrypt_block P) (aes_ctx ctx) c 0 (ciphertext_len div 16) pt
          = Some (TLS_SUCCESS, pt')"
    and c: "pl' = Some ciphertext_len"
    by auto
  from m have "(0 + ciphertext_len div 16) * 16 = ciphertext_len" by auto
  with block_loop_drop [OF l] block_loop_length [OF l] c
  show "pl' = Some ciphertext_len" "length pt' = length pt"
    "drop ciphertext_len pt' = drop ciphertext_len pt" by simp_all
qed

theorem reported_length_is_input_length_witness:
  "tls1_3_encrypt_data rev_provider
     (Some (fresh_context\<lparr>state := TLS_STATE_APPLICATION_DATA\<rparr>))
     (Some [0, 1, 2, 3, 4, 5, 6, 7, 8, 9, 10, 11, 12, 13, 14, 15]) 16
     (Some (replicate 20 0xEE)) (Some 0)
   = Some (TLS_SUCCESS,
       Some (fresh_context\<lparr>state := TLS_STATE_APPLICATION_DATA, sequence_number := 1\<rparr>),
       Some ([15, 14, 13, 12, 11, 10, 9, 8, 7, 6, 5, 4, 3, 2, 1, 0] @ replicate 4 0xEE),
       Some 16)
   \<and> Some (16::nat) = Some 16
   \<and> length ([15, 14, 13, 12, 11, 10, 9, 8, 7, 6, 5, 4, 3, 2, 1, 0] @ replicate 4 (0xEE::u8))
       = length (replicate 20 (0xEE::u8))
   \<and> drop 16 ([15, 14, 13, 12, 11, 10, 9, 8, 7, 6, 5, 4, 3, 2, 1, 0] @ replicate 4 (0xEE::u8))
       = drop 16 (replicate 20 (0xEE::u8))
   \<and> tls1_3_decrypt_data rev_provider
     (Some (fresh_context\<lparr>state := TLS_STATE_APPLICATION_DATA, sequence_number := 1\<rparr>))
     (Some ([15, 14, 13, 12, 11, 10, 9, 8, 7, 6, 5, 4, 3, 2, 1, 0] @ replicate 4 0xEE)) 16
     (Some (replicate 16 0)) (Some 0)
   = Some (TLS_SUCCESS,
       Some (fresh_context\<lparr>state := TLS_STATE_APPLICATION_DATA, sequence_number := 2\<rparr>),
       Some [0, 1, 2, 3, 4, 5, 6, 7, 8, 9, 10, 11, 12, 13, 14, 15], Some 16)
   \<and> length [0, 1, 2, 3, 4, 5, 6, 7, 8, 9, 10, 11, 12, 13, 14, 15 :: u8]
       = length (replicate 16 (0::u8))
   \<and> drop 16 [0, 1, 2, 3, 4, 5, 6, 7, 8, 9, 10, 11, 12, 13, 14, 15 :: u8]
       = drop 16 (replicate 16 (0::u8))"
  using reported_length_is_input_length
    [of rev_provider "Some (fresh_context\<lparr>state := TLS_STATE_APPLICATION_DATA\<rparr>)"
        "Some [0, 1, 2, 3, 4, 5, 6, 7, 8, 9, 10, 11, 12, 13, 14, 15]" 16
        "replicate 20 0xEE" "Some 0"
        "Some (fresh_context\<lparr>state := TLS_STATE_APPLICATION_DATA, sequence_number := 1\<rparr>)"
        "[15, 14, 13, 12, 11, 10, 9, 8, 7, 6, 5, 4, 3, 2, 1, 0] @ replicate 4 0xEE" "Some 16"
        "Some (fresh_context\<lparr>state := TLS_STATE_APPLICATION_DATA, sequence_number := 1\<rparr>)"
        "Some ([15, 14, 13, 12, 11, 10, 9, 8, 7, 6, 5, 4, 3, 2, 1, 0] @ replicate 4 0xEE)" 16
        "replicate 16 0" "Some 0"
        "Some (fresh_context\<lparr>state := TLS_STATE_APPLICATION_DATA, sequence_number := 2\<rparr>)"
        "[0, 1, 2, 3, 4, 5, 6, 7, 8, 9, 10, 11, 12, 13, 14, 15]" "Some 16"]
    encrypt_example decrypt_example
  by blast

end
